theory Spec2Isabelle
  imports Main
begin

section \<open>Outcomes of a run\<close>

text \<open>
  The JavaScript of \<^verbatim>\<open>src/parsing.js\<close> either returns a value, throws (an uncaught
  \<^verbatim>\<open>TypeError\<close> on a property read of \<^verbatim>\<open>undefined\<close>, a failed file read), or recurses
  without bound. The recursive functions of the model take a fuel argument that bounds
  the depth of the recursion: \<open>OutOfFuel\<close> is the answer of a run that needs more depth
  than the fuel allows, \<open>Fault\<close> an uncaught exception, \<open>Ret v\<close> a normal return.
\<close>

datatype 'a outcome = OutOfFuel | Fault | Ret 'a

definition obind :: "'a outcome \<Rightarrow> ('a \<Rightarrow> 'b outcome) \<Rightarrow> 'b outcome" where
  "obind r f = (case r of OutOfFuel \<Rightarrow> OutOfFuel | Fault \<Rightarrow> Fault | Ret v \<Rightarrow> f v)"

primrec mapM :: "('a \<Rightarrow> 'b outcome) \<Rightarrow> 'a list \<Rightarrow> 'b list outcome" where
  "mapM f [] = Ret []"
| "mapM f (x # xs) = obind (f x) (\<lambda>y. obind (mapM f xs) (\<lambda>ys. Ret (y # ys)))"

text \<open>
  \<^verbatim>\<open>xs.forEach(x => ...)\<close> over a state that every round may change, stopping at the
  first round that does not return.
\<close>

primrec forEachM :: "('a \<Rightarrow> 's \<Rightarrow> 's outcome) \<Rightarrow> 'a list \<Rightarrow> 's \<Rightarrow> 's outcome" where
  "forEachM f [] s = Ret s"
| "forEachM f (x # xs) s = obind (f x s) (forEachM f xs)"

section \<open>Data model\<close>

text \<open>
  The syntax tree below a function definition, as far as the visitor of
  \<^verbatim>\<open>parserFunctionVisitor\<close> looks at it. Only an \<open>Identifier\<close> node has a \<^verbatim>\<open>name\<close>
  property, only a \<open>FunctionCall\<close> node has \<^verbatim>\<open>arguments\<close>; \<open>Node\<close> stands for every
  other kind of node (statements, literals, operators, type-name expressions), with its
  children in the order the parser's \<^verbatim>\<open>visit\<close> reaches them.
\<close>

datatype ast =
    Identifier string
  | MemberAccess ast string
  | FunctionCall ast "ast list"
  | IndexAccess ast ast
  | Node "ast list"

text \<open>
  A \<^verbatim>\<open>typeName\<close> node: \<^verbatim>\<open>name\<close> (elementary types) and \<^verbatim>\<open>namePath\<close> (user-defined
  types) may each be \<^verbatim>\<open>undefined\<close>. Every parameter of a function has such a node; a
  variable declaration may have none (\<^verbatim>\<open>typeName\<close> is \<^verbatim>\<open>null\<close> for the variables of
  \<^verbatim>\<open>var (a, b) = ...\<close>), and then its \<^verbatim>\<open>typeName\<close> is \<open>None\<close>.
\<close>

record TypeName =
  typeName_name :: "string option"
  typeName_namePath :: "string option"

text \<open>A JavaScript \<^verbatim>\<open>Map\<close> with string keys: its entries in insertion order.\<close>

type_synonym 'v jsmap = "(string \<times> 'v) list"

fun map_set :: "string \<Rightarrow> 'v \<Rightarrow> 'v jsmap \<Rightarrow> 'v jsmap" where
  "map_set k v [] = [(k, v)]"
| "map_set k v ((k', v') # m) = (if k' = k then (k, v) # m else (k', v') # map_set k v m)"

text \<open>
  An entry of \<^verbatim>\<open>callMethods\<close>: \<^verbatim>\<open>{ name, args }\<close>. \<^verbatim>\<open>renameToSymLinks\<close> overwrites \<^verbatim>\<open>name\<close>
  with the resolver's answer, a string or \<^verbatim>\<open>undefined\<close> (\<open>None\<close>). Both handlers that
  push an entry give it an array as \<^verbatim>\<open>args\<close>, so \<^verbatim>\<open>call.args !== undefined\<close> holds in
  the resolver.
\<close>

record CallRef =
  name :: "string option"
  args :: "ast list"

text \<open>An entry of \<^verbatim>\<open>methodCalls\<close>: \<^verbatim>\<open>{ functionName, functionDefinition, callMethods }\<close>.\<close>

record MethodRecord =
  functionName :: string
  functionDefinition :: string
  callMethods :: "CallRef list"

text \<open>
  What \<^verbatim>\<open>processData\<close> pushes for a file:
  \<^verbatim>\<open>{ contractName, extendsContracts, importList, methodCalls }\<close>. \<^verbatim>\<open>contractName\<close> is
  \<^verbatim>\<open>undefined\<close> for a file without a contract definition.
\<close>

record ContractRecord =
  contractName :: "string option"
  extendsContracts :: "string list"
  importList :: "string list"
  methodCalls :: "MethodRecord list"

text \<open>
  \<^verbatim>\<open>variableTypeMap\<close>: for a contract name, the map from a variable's name to its
  declaration node, of which the source reads \<^verbatim>\<open>typeName\<close> only.
\<close>

type_synonym VariableTypeMap = "(TypeName option jsmap) jsmap"

section \<open>Strings\<close>

text \<open>A template literal \<^verbatim>\<open>${v}\<close> for \<^verbatim>\<open>v\<close> a string or \<^verbatim>\<open>undefined\<close>.\<close>

definition js_string :: "string option \<Rightarrow> string" where
  "js_string v = (case v of None \<Rightarrow> ''undefined'' | Some s \<Rightarrow> s)"

text \<open>
  \<^verbatim>\<open>path.parse(p).name\<close> of Node.js for a POSIX path: trailing slashes are dropped, the
  base is what follows the last slash, and the extension starts at the base's last dot,
  unless that dot is the base's first character or the base is \<^verbatim>\<open>..\<close>. (The one path
  on which Node.js answers otherwise is \<^verbatim>\<open>/..\<close>, which \<^verbatim>\<open>path.join\<close> never returns.)
\<close>

definition path_parse_name :: "string \<Rightarrow> string" where
  "path_parse_name p =
     (let base = rev (takeWhile (\<lambda>c. c \<noteq> CHR ''/'') (dropWhile (\<lambda>c. c = CHR ''/'') (rev p)));
          stem = rev (drop 1 (dropWhile (\<lambda>c. c \<noteq> CHR ''.'') (rev base)))
      in if base = ''..'' then base else if stem = [] then base else stem)"

section \<open>The call resolver\<close>

text \<open>
  \<^verbatim>\<open>(t.name === undefined) ? t.namePath : t.name\<close>, the type string read off a declaration.
\<close>

definition declared_type :: "TypeName \<Rightarrow> string option" where
  "declared_type t = (case typeName_name t of None \<Rightarrow> typeName_namePath t | Some n \<Rightarrow> Some n)"

text \<open>
  One round of the inner \<^verbatim>\<open>forEach\<close> of \<^verbatim>\<open>findAndRenameCall\<close> over the registry, on the
  entry \<^verbatim>\<open>(value, key)\<close>: when the key is the argument's name and \<^verbatim>\<open>argType\<close> is still
  \<^verbatim>\<open>undefined\<close>, it reads \<^verbatim>\<open>value.typeName.name\<close>, which throws a \<^verbatim>\<open>TypeError\<close> when the
  declaration has no \<^verbatim>\<open>typeName\<close>.
\<close>

definition lookup_round ::
  "string \<Rightarrow> string \<times> TypeName option \<Rightarrow> string option \<Rightarrow> string option outcome" where
  "lookup_round pname entry argType =
     (case entry of (key, val) \<Rightarrow>
        if key = pname \<and> argType = None then
          (case val of None \<Rightarrow> Fault | Some typeName \<Rightarrow> Ret (declared_type typeName))
        else Ret argType)"

text \<open>
  The two nested \<^verbatim>\<open>forEach\<close> over the registry, in the order of insertion: \<^verbatim>\<open>argType\<close>
  after them, or the exception of the first round that throws.
\<close>

definition lookup_argType :: "VariableTypeMap \<Rightarrow> string \<Rightarrow> string option outcome" where
  "lookup_argType variableTypeMap pname =
     forEachM (\<lambda>(contract, valueVar). forEachM (lookup_round pname) valueVar)
       variableTypeMap None"

text \<open>
  What one argument of the call appends to \<^verbatim>\<open>functionDefinition\<close>, or the exception of
  its lookup.
\<close>

fun arg_segment :: "VariableTypeMap \<Rightarrow> ast \<Rightarrow> string outcome" where
  "arg_segment variableTypeMap (Identifier n) =
     obind (lookup_argType variableTypeMap n) (\<lambda>argType. Ret ('':'' @ js_string argType))"
| "arg_segment variableTypeMap (MemberAccess e memberName) =
     (if memberName = ''sender'' then Ret '':address''
      else if memberName = ''value'' then Ret '':uint256''
      else Ret [])"
| "arg_segment variableTypeMap (FunctionCall e as) = Ret []"
| "arg_segment variableTypeMap (IndexAccess b i) = Ret []"
| "arg_segment variableTypeMap (Node ns) = Ret []"

text \<open>
  The identifier built when the callee is found in \<open>contractInfo\<close>:
  \<^verbatim>\<open>`${contractInfo.contractName}:${call.name}`\<close> and one segment per argument, in the
  order of the arguments; the exception of the first argument whose lookup throws.
\<close>

definition renamed :: "ContractRecord \<Rightarrow> VariableTypeMap \<Rightarrow> CallRef \<Rightarrow> string outcome" where
  "renamed contractInfo variableTypeMap call =
     obind (mapM (arg_segment variableTypeMap) (args call))
       (\<lambda>segments.
          Ret (js_string (contractName contractInfo) @ '':'' @ js_string (name call)
                 @ concat segments))"

text \<open>
  A \<^verbatim>\<open>forEach\<close> whose rounds each visit one contract and overwrite \<^verbatim>\<open>foundResult\<close> when
  the visit's result is not \<^verbatim>\<open>undefined\<close>.
\<close>

primrec forEach_visit ::
  "('c \<Rightarrow> string option outcome) \<Rightarrow> 'c list \<Rightarrow> string option \<Rightarrow> string option outcome" where
  "forEach_visit visit [] foundResult = Ret foundResult"
| "forEach_visit visit (c # cs) foundResult =
     (case visit c of
        OutOfFuel \<Rightarrow> OutOfFuel
      | Fault \<Rightarrow> Fault
      | Ret result \<Rightarrow>
          forEach_visit visit cs (if result = None then foundResult else result))"

text \<open>
  \<^verbatim>\<open>findAndRenameCall(contracts, contractRoot, contractInfo, variableTypeMap, call)\<close>.
  \<open>contracts\<close> and \<open>contractInfo\<close> may be \<^verbatim>\<open>undefined\<close> (\<open>None\<close>): the source tests the
  first and reads \<^verbatim>\<open>contractInfo.methodCalls\<close> of the second, which throws when
  \<^verbatim>\<open>contracts.find\<close> found no record. A round of the import loop whose name is in
  \<^verbatim>\<open>extendsContracts\<close> does nothing, as a visit returning \<^verbatim>\<open>undefined\<close> does. An
  exception thrown while the identifier is built leaves the function, as every other.
\<close>

fun findAndRenameCall ::
  "nat \<Rightarrow> ContractRecord list option \<Rightarrow> ContractRecord \<Rightarrow> ContractRecord option
     \<Rightarrow> VariableTypeMap \<Rightarrow> CallRef \<Rightarrow> string option outcome" where
  "findAndRenameCall 0 contracts contractRoot contractInfo variableTypeMap call = OutOfFuel"
| "findAndRenameCall (Suc fuel) None contractRoot contractInfo variableTypeMap call = Ret None"
| "findAndRenameCall (Suc fuel) (Some contracts) contractRoot None variableTypeMap call = Fault"
| "findAndRenameCall (Suc fuel) (Some contracts) contractRoot (Some contractInfo)
       variableTypeMap call =
     (case find (\<lambda>method. Some (functionName method) = name call) (methodCalls contractInfo) of
        Some method \<Rightarrow>
          obind (renamed contractInfo variableTypeMap call)
            (\<lambda>functionDefinition. Ret (Some functionDefinition))
      | None \<Rightarrow>
          (case forEach_visit
                  (\<lambda>extending.
                     findAndRenameCall fuel (Some contracts) contractRoot
                       (find (\<lambda>c. contractName c = Some extending) contracts)
                       variableTypeMap call)
                  (extendsContracts contractInfo) None of
             OutOfFuel \<Rightarrow> OutOfFuel
           | Fault \<Rightarrow> Fault
           | Ret foundResult \<Rightarrow>
               (if foundResult = None then
                  forEach_visit
                    (\<lambda>importContract.
                       if path_parse_name importContract \<in> set (extendsContracts contractInfo)
                       then Ret None
                       else
                         findAndRenameCall fuel (Some contracts) contractRoot
                           (find (\<lambda>c. contractName c = Some (path_parse_name importContract))
                              contracts)
                           variableTypeMap call)
                    (importList contractInfo) None
                else Ret foundResult)))"

section \<open>Recording the calls of a function\<close>

definition isKeywordCall :: "string \<Rightarrow> bool" where
  "isKeywordCall word = (word = ''length'')"

text \<open>The word tested is \<^verbatim>\<open>fLink.expression.name\<close>, which may be \<^verbatim>\<open>undefined\<close>.\<close>

definition isKeywordFunction :: "string option \<Rightarrow> bool" where
  "isKeywordFunction word =
     (word = Some ''require'' \<or> word = Some ''revert'' \<or> word = Some ''assert'')"

text \<open>\<^verbatim>\<open>expression.name\<close>: a property of \<open>Identifier\<close> nodes only.\<close>

fun expression_name :: "ast \<Rightarrow> string option" where
  "expression_name (Identifier n) = Some n"
| "expression_name (MemberAccess e m) = None"
| "expression_name (FunctionCall e as) = None"
| "expression_name (IndexAccess b i) = None"
| "expression_name (Node ns) = None"

text \<open>
  \<^verbatim>\<open>expression.type\<close>; the source compares it with \<^verbatim>\<open>'Identifier'\<close> and
  \<^verbatim>\<open>'IndexAccess'\<close> only, so one string stands for the type of every other node.
\<close>

fun expression_type :: "ast \<Rightarrow> string" where
  "expression_type (Identifier n) = ''Identifier''"
| "expression_type (MemberAccess e m) = ''MemberAccess''"
| "expression_type (FunctionCall e as) = ''FunctionCall''"
| "expression_type (IndexAccess b i) = ''IndexAccess''"
| "expression_type (Node ns) = ''Other''"

text \<open>\<^verbatim>\<open>list.includes(v)\<close> for a list of strings and \<^verbatim>\<open>v\<close> a string or \<^verbatim>\<open>undefined\<close>.\<close>

definition list_includes :: "string list \<Rightarrow> string option \<Rightarrow> bool" where
  "list_includes list v = (case v of None \<Rightarrow> False | Some s \<Rightarrow> s \<in> set list)"

text \<open>
  \<^verbatim>\<open>isCountableStatement(fLink, contractsList, ignoresList)\<close>, on the \<^verbatim>\<open>expression\<close> of the
  call node \<^verbatim>\<open>fLink\<close>, the only part of it the source reads.
\<close>

definition isCountableStatement :: "ast \<Rightarrow> string list \<Rightarrow> string list \<Rightarrow> bool" where
  "isCountableStatement expression contractsList ignoresList =
     (\<not> isKeywordFunction (expression_name expression)
      \<and> \<not> list_includes ignoresList (expression_name expression)
      \<and> \<not> list_includes contractsList (expression_name expression)
      \<and> expression_name expression \<noteq> None)"

text \<open>
  A \<^verbatim>\<open>FunctionDefinition\<close> node: its modifier invocations (name and arguments), the
  type names of its parameters, and \<^verbatim>\<open>body.statements\<close> (\<open>None\<close> when \<^verbatim>\<open>body\<close> is
  \<^verbatim>\<open>null\<close>). The parameter list is taken to hold no call and no member access.
\<close>

record FunctionDefinition =
  fd_name :: string
  isConstructor :: bool
  modifiers :: "(string \<times> ast list) list"
  parameters :: "TypeName list"
  body :: "ast list option"

text \<open>
  The \<^verbatim>\<open>FunctionCall\<close> handler of \<^verbatim>\<open>parserFunctionVisitor\<close>, on a call node with the
  given \<^verbatim>\<open>expression\<close> and \<^verbatim>\<open>arguments\<close>: what it pushes onto \<^verbatim>\<open>callMethods\<close>. The
  visitor runs only on a definition with a body.
\<close>

definition parserFunctionVisitor_FunctionCall ::
  "string list \<Rightarrow> string list \<Rightarrow> FunctionDefinition \<Rightarrow> ast \<Rightarrow> ast list \<Rightarrow> CallRef list" where
  "parserFunctionVisitor_FunctionCall contractsList ignoresList fDef expression arguments =
     (case body fDef of
        None \<Rightarrow> []
      | Some statements \<Rightarrow>
          if Some (fd_name fDef) \<noteq> expression_name expression
             \<and> length statements > 1
             \<and> isCountableStatement expression contractsList ignoresList
          then [\<lparr>name = expression_name expression, args = arguments\<rparr>]
          else [])"

text \<open>
  The \<^verbatim>\<open>MemberAccess\<close> handler, on a member-access node with the given \<^verbatim>\<open>expression\<close>
  and \<^verbatim>\<open>memberName\<close>. The arguments it records are those of \<^verbatim>\<open>expression\<close>, when
  \<^verbatim>\<open>expression\<close> has an \<^verbatim>\<open>arguments\<close> property of its own (it is a call node).
\<close>

definition parserFunctionVisitor_MemberAccess ::
  "string list \<Rightarrow> ast \<Rightarrow> string \<Rightarrow> CallRef list" where
  "parserFunctionVisitor_MemberAccess contractsList expression memberName =
     (if (expression_type expression \<noteq> ''Identifier''
          \<or> list_includes contractsList (expression_name expression)
          \<or> expression_name expression = Some ''super'')
         \<and> expression_type expression \<noteq> ''IndexAccess''
      then
        if isKeywordCall memberName then []
        else
          (case expression of
             FunctionCall e arguments \<Rightarrow> [\<lparr>name = Some memberName, args = arguments\<rparr>]
           | _ \<Rightarrow> [\<lparr>name = Some memberName, args = []\<rparr>])
      else [])"

text \<open>
  \<^verbatim>\<open>parser.visit(node, parserFunctionVisitor(...))\<close>: the handler of a node runs before
  its children are visited, and both handlers only push, so the visit of a subtree is
  the list of what it pushes, in order.
\<close>

fun visit_calls ::
  "string list \<Rightarrow> string list \<Rightarrow> FunctionDefinition \<Rightarrow> ast \<Rightarrow> CallRef list" where
  "visit_calls contractsList ignoresList fDef (Identifier n) = []"
| "visit_calls contractsList ignoresList fDef (MemberAccess e m) =
     parserFunctionVisitor_MemberAccess contractsList e m
       @ visit_calls contractsList ignoresList fDef e"
| "visit_calls contractsList ignoresList fDef (FunctionCall e as) =
     parserFunctionVisitor_FunctionCall contractsList ignoresList fDef e as
       @ visit_calls contractsList ignoresList fDef e
       @ concat (map (visit_calls contractsList ignoresList fDef) as)"
| "visit_calls contractsList ignoresList fDef (IndexAccess b i) =
     visit_calls contractsList ignoresList fDef b
       @ visit_calls contractsList ignoresList fDef i"
| "visit_calls contractsList ignoresList fDef (Node ns) =
     concat (map (visit_calls contractsList ignoresList fDef) ns)"

text \<open>
  The \<^verbatim>\<open>callMethods\<close> of a function that is not a constructor: empty without a body,
  else the visit of the definition, its statements first, then the arguments of its
  modifier invocations.
\<close>

definition function_callMethods ::
  "string list \<Rightarrow> string list \<Rightarrow> FunctionDefinition \<Rightarrow> CallRef list" where
  "function_callMethods contractsList ignoresList fDef =
     (case body fDef of
        None \<Rightarrow> []
      | Some statements \<Rightarrow>
          concat (map (visit_calls contractsList ignoresList fDef)
                    (statements @ concat (map snd (modifiers fDef)))))"

text \<open>
  \<^verbatim>\<open>`${contractName}:${fDef.name}`\<close> followed by \<^verbatim>\<open>:type\<close> for each declared parameter.
\<close>

definition signature_of :: "string option \<Rightarrow> FunctionDefinition \<Rightarrow> string" where
  "signature_of cName fDef =
     js_string cName @ '':'' @ fd_name fDef
       @ concat (map (\<lambda>p. '':'' @ js_string (declared_type p)) (parameters fDef))"

section \<open>Files\<close>

text \<open>
  The nodes of a parsed file that the handlers of \<^verbatim>\<open>profileData\<close> and of the first scan
  of \<^verbatim>\<open>processData\<close> are called on. A variable declaration carries its \<^verbatim>\<open>name\<close> and
  its \<^verbatim>\<open>typeName\<close>, the two parts of the node that the source reads; \<^verbatim>\<open>typeName\<close> is
  \<open>None\<close> where the node has none. State variables, struct members and local variables
  are nodes of this kind; the parameters of a function are not. An import directive
  carries \<^verbatim>\<open>nodePath\<close>, the path that the source computes with \<^verbatim>\<open>path.join\<close> from the
  directive's text and the path of the importing file.
\<close>

datatype decl =
    VariableDeclaration string "TypeName option"
  | EventDefinition string
  | StructDefinition string
  | ContractDefinition string
  | ImportDirective string

text \<open>
  A parsed file: the nodes above, its \<^verbatim>\<open>FunctionDefinition\<close> nodes and the
  \<^verbatim>\<open>baseName.namePath\<close> of its \<^verbatim>\<open>InheritanceSpecifier\<close> nodes, each in the order
  \<^verbatim>\<open>parser.visit\<close> reaches them. The file system gives the parsed file at a path, or
  \<open>None\<close> where the read or the parse throws.
\<close>

record SourceUnit =
  declarations :: "decl list"
  functionDefinitions :: "FunctionDefinition list"
  inheritance :: "string list"

type_synonym files = "string \<Rightarrow> SourceUnit option"

text \<open>\<^verbatim>\<open>contractName\<close> after the first scan: the name of the last contract definition.\<close>

fun last_contractName :: "decl list \<Rightarrow> string option \<Rightarrow> string option" where
  "last_contractName [] cName = cName"
| "last_contractName (ContractDefinition n # ds) cName = last_contractName ds (Some n)"
| "last_contractName (d # ds) cName = last_contractName ds cName"

fun import_paths :: "decl list \<Rightarrow> string list" where
  "import_paths [] = []"
| "import_paths (ImportDirective nodePath # ds) = nodePath # import_paths ds"
| "import_paths (d # ds) = import_paths ds"

text \<open>\<^verbatim>\<open>imp.indexOf(s) > -1\<close>: \<open>s\<close> occurs in \<open>imp\<close>.\<close>

fun starts_with :: "string \<Rightarrow> string \<Rightarrow> bool" where
  "starts_with imp [] = True"
| "starts_with [] (c # s) = False"
| "starts_with (d # imp) (c # s) = (d = c \<and> starts_with imp s)"

fun indexOf_found :: "string \<Rightarrow> string \<Rightarrow> bool" where
  "indexOf_found [] s = (s = [])"
| "indexOf_found (d # imp) s = (starts_with (d # imp) s \<or> indexOf_found imp s)"

text \<open>
  \<^verbatim>\<open>importList.filter(imp => imp.indexOf(s) > -1)[0]\<close>: \<^verbatim>\<open>undefined\<close> when no import path
  holds \<open>s\<close>.
\<close>

definition first_import_with :: "string list \<Rightarrow> string \<Rightarrow> string option" where
  "first_import_with paths s =
     (case filter (\<lambda>imp. indexOf_found imp s) paths of
        [] \<Rightarrow> None
      | nodePath # rest \<Rightarrow> Some nodePath)"

section \<open>The structural extractor\<close>

text \<open>
  The block that \<^verbatim>\<open>processData\<close> repeats for a constructor's modifier, a base contract
  and an import: unless \<^verbatim>\<open>importVisited\<close> includes \<^verbatim>\<open>nodePath\<close>, push it, process the file
  and push the records it returns onto \<^verbatim>\<open>processed\<close>. \<^verbatim>\<open>importVisited\<close> is one array shared
  by the whole recursion, so the recursive call returns it too.
\<close>

definition visit_unvisited ::
  "(string option \<Rightarrow> string option list \<Rightarrow> (ContractRecord list \<times> string option list) outcome)
     \<Rightarrow> string option \<Rightarrow> string option list \<times> ContractRecord list
     \<Rightarrow> (string option list \<times> ContractRecord list) outcome" where
  "visit_unvisited process nodePath st =
     (case st of (importVisited, processed) \<Rightarrow>
        if nodePath \<in> set importVisited then Ret (importVisited, processed)
        else
          obind (process nodePath (importVisited @ [nodePath]))
            (\<lambda>(result, importVisited'). Ret (importVisited', processed @ result)))"

text \<open>
  \<^verbatim>\<open>processData(solidityFile, importVisited, ignoresList, contractsList)\<close>, returning
  \<^verbatim>\<open>processed\<close> and the final \<^verbatim>\<open>importVisited\<close>. \<open>solidityFile\<close> is \<^verbatim>\<open>undefined\<close> (\<open>None\<close>)
  when the caller found no import path for a name; reading it throws.
\<close>

fun processData ::
  "nat \<Rightarrow> files \<Rightarrow> string option \<Rightarrow> string option list \<Rightarrow> string list \<Rightarrow> string list
     \<Rightarrow> (ContractRecord list \<times> string option list) outcome" where
  "processData 0 fs solidityFile importVisited ignoresList contractsList = OutOfFuel"
| "processData (Suc fuel) fs None importVisited ignoresList contractsList = Fault"
| "processData (Suc fuel) fs (Some file) importVisited ignoresList contractsList =
     (case fs file of
        None \<Rightarrow> Fault
      | Some ast \<Rightarrow>
          let contractName = last_contractName (declarations ast) None;
              importList = import_paths (declarations ast);
              process = (\<lambda>nodePath visited.
                           processData fuel fs nodePath visited ignoresList contractsList)
          in
            obind
              (forEachM
                 (\<lambda>fDef (visited, processed, methodCalls).
                    if isConstructor fDef then
                      obind
                        (forEachM
                           (\<lambda>modifier.
                              visit_unvisited process (first_import_with importList (fst modifier)))
                           (modifiers fDef) (visited, processed))
                        (\<lambda>(visited', processed'). Ret (visited', processed', methodCalls))
                    else
                      Ret (visited, processed,
                           methodCalls @
                             [\<lparr>functionName = fd_name fDef,
                               functionDefinition = signature_of contractName fDef,
                               callMethods = function_callMethods contractsList ignoresList fDef\<rparr>]))
                 (functionDefinitions ast) (importVisited, [], []))
              (\<lambda>(visited, processed, methodCalls).
                 obind
                   (forEachM
                      (\<lambda>baseName. visit_unvisited process (first_import_with importList baseName))
                      (inheritance ast) (visited, processed))
                   (\<lambda>(visited', processed').
                      obind
                        (forEachM (\<lambda>nodePath. visit_unvisited process (Some nodePath))
                           importList (visited', processed'))
                        (\<lambda>(visited'', processed'').
                           Ret (processed'' @
                                  [\<lparr>contractName = contractName,
                                    extendsContracts = inheritance ast,
                                    importList = importList,
                                    methodCalls = methodCalls\<rparr>],
                                visited'')))))"

section \<open>The profiler\<close>

text \<open>
  The four collections that \<^verbatim>\<open>profileData\<close> changes in place:
  \<^verbatim>\<open>importVisited\<close>, \<^verbatim>\<open>ignoresList\<close>, \<^verbatim>\<open>contractsList\<close>, \<^verbatim>\<open>variableType\<close>.
\<close>

type_synonym registries = "string list \<times> string list \<times> string list \<times> VariableTypeMap"

text \<open>
  One handler call of the visit of \<^verbatim>\<open>profileData\<close>, on the local \<^verbatim>\<open>contractName\<close> and
  \<^verbatim>\<open>contractVariables\<close> and the four shared collections. \<open>profile\<close> is the recursive
  call, made for an import that \<^verbatim>\<open>importVisited\<close> does not include.
\<close>

fun profile_node ::
  "(string \<Rightarrow> registries \<Rightarrow> registries outcome) \<Rightarrow> decl
     \<Rightarrow> string \<times> TypeName option jsmap \<times> registries
     \<Rightarrow> (string \<times> TypeName option jsmap \<times> registries) outcome" where
  "profile_node profile (VariableDeclaration n t) (cName, contractVariables, regs) =
     Ret (cName, map_set n t contractVariables, regs)"
| "profile_node profile (EventDefinition n)
       (cName, contractVariables, importVisited, ignoresList, contractsList, variableType) =
     Ret (cName, contractVariables,
          importVisited, ignoresList @ [n], contractsList, variableType)"
| "profile_node profile (StructDefinition n)
       (cName, contractVariables, importVisited, ignoresList, contractsList, variableType) =
     Ret (cName, contractVariables,
          importVisited, ignoresList @ [n], contractsList, variableType)"
| "profile_node profile (ContractDefinition n)
       (cName, contractVariables, importVisited, ignoresList, contractsList, variableType) =
     Ret (n, contractVariables,
          importVisited, ignoresList, contractsList @ [n], variableType)"
| "profile_node profile (ImportDirective nodePath)
       (cName, contractVariables, importVisited, ignoresList, contractsList, variableType) =
     (if nodePath \<in> set importVisited then
        Ret (cName, contractVariables,
             importVisited, ignoresList, contractsList, variableType)
      else
        obind (profile nodePath (importVisited @ [nodePath], ignoresList, contractsList, variableType))
          (\<lambda>regs'. Ret (cName, contractVariables, regs')))"

text \<open>
  \<^verbatim>\<open>profileData(solidityFile, importVisited, ignoresList, contractsList, variableType)\<close>.
  The handlers run in the order of the nodes; \<^verbatim>\<open>contractName\<close> starts as the empty
  string, and the file's one map of variables is stored under its last value.
\<close>

fun profileData :: "nat \<Rightarrow> files \<Rightarrow> string \<Rightarrow> registries \<Rightarrow> registries outcome" where
  "profileData 0 fs solidityFile regs = OutOfFuel"
| "profileData (Suc fuel) fs solidityFile regs =
     (case fs solidityFile of
        None \<Rightarrow> Fault
      | Some ast \<Rightarrow>
          obind
            (forEachM (profile_node (profileData fuel fs)) (declarations ast) ('''', [], regs))
            (\<lambda>(contractName, contractVariables, importVisited, ignoresList,
                contractsList, variableType).
               Ret (importVisited, ignoresList, contractsList,
                    map_set contractName contractVariables variableType)))"

section \<open>Linking\<close>

text \<open>
  \<^verbatim>\<open>renameToSymLinks\<close> overwrites the \<^verbatim>\<open>name\<close> of every call with the resolver's answer.
  The resolver reads \<^verbatim>\<open>contractName\<close>, \<^verbatim>\<open>functionName\<close>, \<^verbatim>\<open>extendsContracts\<close> and
  \<^verbatim>\<open>importList\<close> of the records of \<^verbatim>\<open>contract.contract\<close> and never the \<^verbatim>\<open>name\<close> of a
  call in them, so every call is resolved against the records as extracted.
\<close>

definition rename_call ::
  "nat \<Rightarrow> ContractRecord list \<Rightarrow> ContractRecord \<Rightarrow> VariableTypeMap \<Rightarrow> CallRef \<Rightarrow> CallRef outcome" where
  "rename_call fuel contracts contractInfo variableTypeMap call =
     obind (findAndRenameCall fuel (Some contracts) contractInfo (Some contractInfo)
              variableTypeMap call)
       (\<lambda>result. Ret (call\<lparr>name := result\<rparr>))"

definition rename_method ::
  "nat \<Rightarrow> ContractRecord list \<Rightarrow> ContractRecord \<Rightarrow> VariableTypeMap \<Rightarrow> MethodRecord
     \<Rightarrow> MethodRecord outcome" where
  "rename_method fuel contracts contractInfo variableTypeMap method =
     obind (mapM (rename_call fuel contracts contractInfo variableTypeMap) (callMethods method))
       (\<lambda>calls. Ret (method\<lparr>callMethods := calls\<rparr>))"

definition rename_contract ::
  "nat \<Rightarrow> ContractRecord list \<Rightarrow> VariableTypeMap \<Rightarrow> ContractRecord \<Rightarrow> ContractRecord outcome" where
  "rename_contract fuel contracts variableTypeMap contractInfo =
     obind (mapM (rename_method fuel contracts contractInfo variableTypeMap)
              (methodCalls contractInfo))
       (\<lambda>methods. Ret (contractInfo\<lparr>methodCalls := methods\<rparr>))"

definition renameToSymLinks ::
  "nat \<Rightarrow> (string \<times> ContractRecord list) list \<Rightarrow> VariableTypeMap
     \<Rightarrow> (string \<times> ContractRecord list) list outcome" where
  "renameToSymLinks fuel allContractsData variableTypeMap =
     mapM (\<lambda>(file, contract).
             obind (mapM (rename_contract fuel contract variableTypeMap) contract)
               (\<lambda>contract'. Ret (file, contract')))
          allContractsData"

text \<open>
  \<^verbatim>\<open>exports.parsing\<close>, up to the array that is handed to the two rendering transforms.
  Every file is profiled and processed with fresh \<^verbatim>\<open>importVisited\<close>, \<^verbatim>\<open>ignoresList\<close> and
  \<^verbatim>\<open>contractsList\<close>; \<^verbatim>\<open>variableTypeMap\<close> is shared.
\<close>

definition parsing ::
  "nat \<Rightarrow> files \<Rightarrow> string list \<Rightarrow> (string \<times> ContractRecord list) list outcome" where
  "parsing fuel fs solidityFilesPath =
     obind
       (forEachM
          (\<lambda>file (variableTypeMap, contractsArray).
             obind (profileData fuel fs file ([], [], [], variableTypeMap))
               (\<lambda>(visited, ignoresList, contractsList, variableTypeMap').
                  obind (processData fuel fs (Some file) [] ignoresList contractsList)
                    (\<lambda>(contract, visited').
                       Ret (variableTypeMap', contractsArray @ [(file, contract)]))))
          solidityFilesPath ([], []))
       (\<lambda>(variableTypeMap, contractsArray).
          renameToSymLinks fuel contractsArray variableTypeMap)"

section \<open>Example files\<close>

text \<open>
  The end-to-end scenario of the specification: \<^verbatim>\<open>Base.sol\<close> with
  \<^verbatim>\<open>contract Base { function greet() { } }\<close> and \<^verbatim>\<open>Child.sol\<close> with
  \<^verbatim>\<open>contract Child is Base { function hello() { greet(); } }\<close>.
\<close>

definition greet_fDef :: FunctionDefinition where
  "greet_fDef =
     \<lparr>fd_name = ''greet'', isConstructor = False, modifiers = [], parameters = [],
      body = Some []\<rparr>"

definition hello_fDef :: FunctionDefinition where
  "hello_fDef =
     \<lparr>fd_name = ''hello'', isConstructor = False, modifiers = [], parameters = [],
      body = Some [Node [FunctionCall (Identifier ''greet'') []]]\<rparr>"

definition base_child_files :: files where
  "base_child_files =
     [''Base.sol'' \<mapsto>
        \<lparr>declarations = [ContractDefinition ''Base''],
         functionDefinitions = [greet_fDef], inheritance = []\<rparr>,
      ''Child.sol'' \<mapsto>
        \<lparr>declarations = [ImportDirective ''Base.sol'', ContractDefinition ''Child''],
         functionDefinitions = [hello_fDef], inheritance = [''Base'']\<rparr>]"

text \<open>\<^verbatim>\<open>function retry() { retry(); greet(); }\<close>: a self-call in a body of two statements.\<close>

definition retry_fDef :: FunctionDefinition where
  "retry_fDef =
     \<lparr>fd_name = ''retry'', isConstructor = False, modifiers = [], parameters = [],
      body = Some [Node [FunctionCall (Identifier ''retry'') []],
                   Node [FunctionCall (Identifier ''greet'') []]]\<rparr>"

text \<open>
  Two files that import each other: \<^verbatim>\<open>A.sol\<close> with
  \<^verbatim>\<open>import "./B.sol"; contract A { function run() { keccak256(x); done = true; } }\<close>
  and \<^verbatim>\<open>B.sol\<close> with \<^verbatim>\<open>import "./A.sol"; contract B { }\<close>.
\<close>

definition run_fDef :: FunctionDefinition where
  "run_fDef =
     \<lparr>fd_name = ''run'', isConstructor = False, modifiers = [], parameters = [],
      body = Some [Node [FunctionCall (Identifier ''keccak256'') [Identifier ''x'']],
                   Node [Identifier ''done'']]\<rparr>"

definition cyclic_files :: files where
  "cyclic_files =
     [''A.sol'' \<mapsto>
        \<lparr>declarations = [ImportDirective ''B.sol'', ContractDefinition ''A''],
         functionDefinitions = [run_fDef], inheritance = []\<rparr>,
      ''B.sol'' \<mapsto>
        \<lparr>declarations = [ImportDirective ''A.sol'', ContractDefinition ''B''],
         functionDefinitions = [], inheritance = []\<rparr>]"

definition keccak_call :: CallRef where
  "keccak_call = \<lparr>name = Some ''keccak256'', args = [Identifier ''x'']\<rparr>"

definition cyclic_A :: ContractRecord where
  "cyclic_A =
     \<lparr>contractName = Some ''A'', extendsContracts = [], importList = [''B.sol''],
      methodCalls =
        [\<lparr>functionName = ''run'', functionDefinition = ''A:run'',
          callMethods = [keccak_call]\<rparr>]\<rparr>"

definition cyclic_B :: ContractRecord where
  "cyclic_B =
     \<lparr>contractName = Some ''B'', extendsContracts = [], importList = [''A.sol''],
      methodCalls = []\<rparr>"

text \<open>
  A file whose name is not its contract's: \<^verbatim>\<open>Tokens.sol\<close> with \<^verbatim>\<open>contract Token { }\<close>,
  imported by \<^verbatim>\<open>User.sol\<close> with
  \<^verbatim>\<open>import "./Tokens.sol"; contract User { function run() { keccak256(x); done = true; } }\<close>.
\<close>

definition tokens_files :: files where
  "tokens_files =
     [''Tokens.sol'' \<mapsto>
        \<lparr>declarations = [ContractDefinition ''Token''],
         functionDefinitions = [], inheritance = []\<rparr>,
      ''User.sol'' \<mapsto>
        \<lparr>declarations = [ImportDirective ''Tokens.sol'', ContractDefinition ''User''],
         functionDefinitions = [run_fDef], inheritance = []\<rparr>]"

definition token_record :: ContractRecord where
  "token_record =
     \<lparr>contractName = Some ''Token'', extendsContracts = [], importList = [],
      methodCalls = []\<rparr>"

definition user_record :: ContractRecord where
  "user_record =
     \<lparr>contractName = Some ''User'', extendsContracts = [], importList = [''Tokens.sol''],
      methodCalls =
        [\<lparr>functionName = ''run'', functionDefinition = ''User:run'',
          callMethods = [keccak_call]\<rparr>]\<rparr>"

text \<open>
  A struct of a library built through the library's name: \<^verbatim>\<open>Lib.sol\<close> with
  \<^verbatim>\<open>library Lib { struct Data { uint256 size; } }\<close> and \<^verbatim>\<open>Store.sol\<close> with
  \<^verbatim>\<open>import "./Lib.sol"; contract Store { function save() { Lib.Data(1); saved = true; } }\<close>.
\<close>

definition uint256_type :: TypeName where
  "uint256_type = \<lparr>typeName_name = Some ''uint256'', typeName_namePath = None\<rparr>"

definition address_type :: TypeName where
  "address_type = \<lparr>typeName_name = Some ''address'', typeName_namePath = None\<rparr>"

definition save_fDef :: FunctionDefinition where
  "save_fDef =
     \<lparr>fd_name = ''save'', isConstructor = False, modifiers = [], parameters = [],
      body = Some [Node [FunctionCall (MemberAccess (Identifier ''Lib'') ''Data'') [Node []]],
                   Node [Identifier ''saved'']]\<rparr>"

definition lib_files :: files where
  "lib_files =
     [''Lib.sol'' \<mapsto>
        \<lparr>declarations = [ContractDefinition ''Lib'', StructDefinition ''Data'',
                         VariableDeclaration ''size'' (Some uint256_type)],
         functionDefinitions = [], inheritance = []\<rparr>,
      ''Store.sol'' \<mapsto>
        \<lparr>declarations = [ImportDirective ''Lib.sol'', ContractDefinition ''Store''],
         functionDefinitions = [save_fDef], inheritance = []\<rparr>]"

text \<open>
  Member-style calls with \<^verbatim>\<open>msg.value\<close> as their argument: \<^verbatim>\<open>Wallet.sol\<close> with
  \<^verbatim>\<open>contract Wallet { function transfer(uint256 amount) { }
  function pay() { x.transfer(msg.value); paid = true; }
  function payUp() { super.transfer(msg.value); paid = true; } }\<close>.
\<close>

definition msg_value :: ast where
  "msg_value = MemberAccess (Identifier ''msg'') ''value''"

definition msg_sender :: ast where
  "msg_sender = MemberAccess (Identifier ''msg'') ''sender''"

definition transfer_fDef :: FunctionDefinition where
  "transfer_fDef =
     \<lparr>fd_name = ''transfer'', isConstructor = False, modifiers = [],
      parameters = [uint256_type], body = Some []\<rparr>"

definition pay_fDef :: FunctionDefinition where
  "pay_fDef =
     \<lparr>fd_name = ''pay'', isConstructor = False, modifiers = [], parameters = [],
      body = Some [Node [FunctionCall (MemberAccess (Identifier ''x'') ''transfer'') [msg_value]],
                   Node [Identifier ''paid'']]\<rparr>"

definition payUp_fDef :: FunctionDefinition where
  "payUp_fDef =
     \<lparr>fd_name = ''payUp'', isConstructor = False, modifiers = [], parameters = [],
      body = Some [Node [FunctionCall (MemberAccess (Identifier ''super'') ''transfer'')
                           [msg_value]],
                   Node [Identifier ''paid'']]\<rparr>"

definition wallet_files :: files where
  "wallet_files =
     [''Wallet.sol'' \<mapsto>
        \<lparr>declarations = [ContractDefinition ''Wallet''],
         functionDefinitions = [transfer_fDef, pay_fDef, payUp_fDef], inheritance = []\<rparr>]"

definition wallet_record :: ContractRecord where
  "wallet_record =
     \<lparr>contractName = Some ''Wallet'', extendsContracts = [], importList = [],
      methodCalls =
        [\<lparr>functionName = ''transfer'', functionDefinition = ''Wallet:transfer:uint256'',
          callMethods = []\<rparr>]\<rparr>"

text \<open>
  One file with two contracts: \<^verbatim>\<open>Two.sol\<close> with
  \<^verbatim>\<open>contract First { address owner; } contract Second { uint256 total; }\<close>.
\<close>

definition two_files :: files where
  "two_files =
     [''Two.sol'' \<mapsto>
        \<lparr>declarations = [ContractDefinition ''First'',
                         VariableDeclaration ''owner'' (Some address_type),
                         ContractDefinition ''Second'',
                         VariableDeclaration ''total'' (Some uint256_type)],
         functionDefinitions = [], inheritance = []\<rparr>]"

text \<open>
  \<^verbatim>\<open>contract Child is A, B\<close>, where \<^verbatim>\<open>A\<close> and \<^verbatim>\<open>B\<close> both define \<^verbatim>\<open>f\<close> and
  \<^verbatim>\<open>Child\<close> defines \<^verbatim>\<open>g\<close> only.
\<close>

definition diamond_A :: ContractRecord where
  "diamond_A =
     \<lparr>contractName = Some ''A'', extendsContracts = [], importList = [],
      methodCalls = [\<lparr>functionName = ''f'', functionDefinition = ''A:f:address'',
                      callMethods = []\<rparr>]\<rparr>"

definition diamond_B :: ContractRecord where
  "diamond_B =
     \<lparr>contractName = Some ''B'', extendsContracts = [], importList = [],
      methodCalls = [\<lparr>functionName = ''f'', functionDefinition = ''B:f:address'',
                      callMethods = []\<rparr>]\<rparr>"

definition f_call :: CallRef where
  "f_call = \<lparr>name = Some ''f'', args = [msg_sender]\<rparr>"

definition diamond_Child :: ContractRecord where
  "diamond_Child =
     \<lparr>contractName = Some ''Child'', extendsContracts = [''A'', ''B''],
      importList = [''A.sol'', ''B.sol''],
      methodCalls = [\<lparr>functionName = ''g'', functionDefinition = ''Child:g'',
                      callMethods = [f_call, keccak_call]\<rparr>]\<rparr>"

text \<open>
  Local variables without a type. \<^verbatim>\<open>V.sol\<close> is
  \<^verbatim>\<open>contract V { function pair() returns (uint256, uint256) { }
  function h(uint256 x) { } function g() { var (a, b) = pair(); h(a); } }\<close>:
  the two variables of the tuple are declaration nodes without \<^verbatim>\<open>typeName\<close>.
\<close>

definition pair_fDef :: FunctionDefinition where
  "pair_fDef =
     \<lparr>fd_name = ''pair'', isConstructor = False, modifiers = [], parameters = [],
      body = Some []\<rparr>"

definition h_fDef :: FunctionDefinition where
  "h_fDef =
     \<lparr>fd_name = ''h'', isConstructor = False, modifiers = [],
      parameters = [uint256_type], body = Some []\<rparr>"

definition gh_fDef :: FunctionDefinition where
  "gh_fDef =
     \<lparr>fd_name = ''g'', isConstructor = False, modifiers = [], parameters = [],
      body = Some [Node [FunctionCall (Identifier ''pair'') []],
                   Node [FunctionCall (Identifier ''h'') [Identifier ''a'']]]\<rparr>"

definition vault_files :: files where
  "vault_files =
     [''V.sol'' \<mapsto>
        \<lparr>declarations = [ContractDefinition ''V'', VariableDeclaration ''a'' None,
                         VariableDeclaration ''b'' None],
         functionDefinitions = [pair_fDef, h_fDef, gh_fDef], inheritance = []\<rparr>]"

definition pair_call :: CallRef where
  "pair_call = \<lparr>name = Some ''pair'', args = []\<rparr>"

definition ha_call :: CallRef where
  "ha_call = \<lparr>name = Some ''h'', args = [Identifier ''a'']\<rparr>"

definition vault_record :: ContractRecord where
  "vault_record =
     \<lparr>contractName = Some ''V'', extendsContracts = [], importList = [],
      methodCalls =
        [\<lparr>functionName = ''pair'', functionDefinition = ''V:pair'', callMethods = []\<rparr>,
         \<lparr>functionName = ''h'', functionDefinition = ''V:h:uint256'', callMethods = []\<rparr>,
         \<lparr>functionName = ''g'', functionDefinition = ''V:g'',
          callMethods = [pair_call, ha_call]\<rparr>]\<rparr>"

text \<open>
  The same under two base contracts. \<^verbatim>\<open>A.sol\<close> is \<^verbatim>\<open>contract A { function f(uint256 x) { } }\<close>,
  \<^verbatim>\<open>B.sol\<close> is \<^verbatim>\<open>contract B { function f(uint256 x) { } }\<close>, and \<^verbatim>\<open>Child.sol\<close> is
  \<^verbatim>\<open>import "./A.sol"; import "./B.sol"; contract Child is A, B {
  function pair() returns (uint256, uint256) { }
  function g() { var (a, b) = pair(); f(a); } }\<close>.
\<close>

definition f_fDef :: FunctionDefinition where
  "f_fDef =
     \<lparr>fd_name = ''f'', isConstructor = False, modifiers = [],
      parameters = [uint256_type], body = Some []\<rparr>"

definition gf_fDef :: FunctionDefinition where
  "gf_fDef =
     \<lparr>fd_name = ''g'', isConstructor = False, modifiers = [], parameters = [],
      body = Some [Node [FunctionCall (Identifier ''pair'') []],
                   Node [FunctionCall (Identifier ''f'') [Identifier ''a'']]]\<rparr>"

definition tie_files :: files where
  "tie_files =
     [''A.sol'' \<mapsto>
        \<lparr>declarations = [ContractDefinition ''A''],
         functionDefinitions = [f_fDef], inheritance = []\<rparr>,
      ''B.sol'' \<mapsto>
        \<lparr>declarations = [ContractDefinition ''B''],
         functionDefinitions = [f_fDef], inheritance = []\<rparr>,
      ''Child.sol'' \<mapsto>
        \<lparr>declarations = [ImportDirective ''A.sol'', ImportDirective ''B.sol'',
                         ContractDefinition ''Child'', VariableDeclaration ''a'' None,
                         VariableDeclaration ''b'' None],
         functionDefinitions = [pair_fDef, gf_fDef], inheritance = [''A'', ''B'']\<rparr>]"

definition fa_call :: CallRef where
  "fa_call = \<lparr>name = Some ''f'', args = [Identifier ''a'']\<rparr>"

definition tie_A :: ContractRecord where
  "tie_A =
     \<lparr>contractName = Some ''A'', extendsContracts = [], importList = [],
      methodCalls = [\<lparr>functionName = ''f'', functionDefinition = ''A:f:uint256'',
                      callMethods = []\<rparr>]\<rparr>"

definition tie_B :: ContractRecord where
  "tie_B =
     \<lparr>contractName = Some ''B'', extendsContracts = [], importList = [],
      methodCalls = [\<lparr>functionName = ''f'', functionDefinition = ''B:f:uint256'',
                      callMethods = []\<rparr>]\<rparr>"

definition tie_Child :: ContractRecord where
  "tie_Child =
     \<lparr>contractName = Some ''Child'', extendsContracts = [''A'', ''B''],
      importList = [''A.sol'', ''B.sol''],
      methodCalls =
        [\<lparr>functionName = ''pair'', functionDefinition = ''Child:pair'', callMethods = []\<rparr>,
         \<lparr>functionName = ''g'', functionDefinition = ''Child:g'',
          callMethods = [pair_call, fa_call]\<rparr>]\<rparr>"

text \<open>The universe of \<open>diamond_Child\<close> before and after linking.\<close>

definition diamond_data :: "(string \<times> ContractRecord list) list" where
  "diamond_data = [(''Child.sol'', [diamond_A, diamond_B, diamond_Child])]"

definition diamond_linked_Child :: ContractRecord where
  "diamond_linked_Child =
     \<lparr>contractName = Some ''Child'', extendsContracts = [''A'', ''B''],
      importList = [''A.sol'', ''B.sol''],
      methodCalls =
        [\<lparr>functionName = ''g'', functionDefinition = ''Child:g'',
          callMethods = [\<lparr>name = Some ''B:f:address'', args = [msg_sender]\<rparr>,
                         \<lparr>name = None, args = [Identifier ''x'']\<rparr>]\<rparr>]\<rparr>"

section \<open>Notions used by the statements\<close>

text \<open>
  A string of the form \<^verbatim>\<open>Contract:Function[:Type]*\<close> over a universe: the name of one of
  its contract records, the name of a function of that record, and type segments.
\<close>

definition qualified_identifier :: "ContractRecord list \<Rightarrow> string \<Rightarrow> bool" where
  "qualified_identifier universe s =
     (\<exists>c \<in> set universe. \<exists>m \<in> set (methodCalls c). \<exists>types.
        s = js_string (contractName c) @ '':'' @ functionName m
              @ concat (map (\<lambda>t. '':'' @ t) types))"

text \<open>The names of the contract definitions of a file, in the order of the visit.\<close>

fun contract_names :: "decl list \<Rightarrow> string list" where
  "contract_names [] = []"
| "contract_names (ContractDefinition n # ds) = n # contract_names ds"
| "contract_names (d # ds) = contract_names ds"

text \<open>
  \<^verbatim>\<open>contractName\<close> and \<^verbatim>\<open>contractVariables\<close> of \<^verbatim>\<open>profileData\<close> after the visit of the
  given nodes, from their values before it.
\<close>

fun file_contractName :: "decl list \<Rightarrow> string \<Rightarrow> string" where
  "file_contractName [] cName = cName"
| "file_contractName (ContractDefinition n # ds) cName = file_contractName ds n"
| "file_contractName (d # ds) cName = file_contractName ds cName"

fun file_variables ::
  "decl list \<Rightarrow> TypeName option jsmap \<Rightarrow> TypeName option jsmap" where
  "file_variables [] vars = vars"
| "file_variables (VariableDeclaration n t # ds) vars = file_variables ds (map_set n t vars)"
| "file_variables (d # ds) vars = file_variables ds vars"

text \<open>The call reference that a direct call \<^verbatim>\<open>transfer(msg.value)\<close> records.\<close>

definition transfer_call :: CallRef where
  "transfer_call = \<lparr>name = Some ''transfer'', args = [msg_value]\<rparr>"

section \<open>Facts about the combinators\<close>

lemma obind_Ret: "obind r f = Ret y \<longleftrightarrow> (\<exists>v. r = Ret v \<and> f v = Ret y)"
  by (cases r) (simp_all add: obind_def)

lemma mapM_Ret_result:
  "mapM f xs = Ret ys \<Longrightarrow> y \<in> set ys \<Longrightarrow> \<exists>x \<in> set xs. f x = Ret y"
  by (induction xs arbitrary: ys) (auto simp: obind_Ret)

lemma mapM_Ret_argument:
  "mapM f xs = Ret ys \<Longrightarrow> x \<in> set xs \<Longrightarrow> \<exists>y \<in> set ys. f x = Ret y"
  by (induction xs arbitrary: ys) (auto simp: obind_Ret)

lemma map_of_map_set: "map_of (map_set k v m) k = Some v"
  by (induction m) auto

lemma keys_map_set: "fst ` set (map_set k v m) = insert k (fst ` set m)"
proof (induction m)
  case Nil
  show ?case by simp
next
  case (Cons a m)
  obtain k' v' where "a = (k', v')" by (cases a)
  with Cons show ?case by (cases "k' = k") auto
qed

section \<open>Facts about the resolver\<close>

lemma forEach_visit_Some:
  "forEach_visit visit xs found = Ret (Some s) \<Longrightarrow>
     found = Some s \<or> (\<exists>x \<in> set xs. visit x = Ret (Some s))"
  by (induction xs arbitrary: found) (auto split: outcome.splits if_splits)

text \<open>
  Every string the resolver returns was built, by \<open>renamed\<close>, from the current record
  or a record of the universe that has a function of the callee's name.
\<close>

lemma findAndRenameCall_Some:
  "findAndRenameCall fuel contracts contractRoot info vt call = Ret (Some s) \<Longrightarrow>
     \<exists>c. (info = Some c \<or> (\<exists>cs. contracts = Some cs \<and> c \<in> set cs))
       \<and> (\<exists>m \<in> set (methodCalls c). Some (functionName m) = name call)
       \<and> renamed c vt call = Ret s"
proof (induction fuel arbitrary: info s)
  case 0
  then show ?case by simp
next
  case (Suc fuel)
  show ?case
  proof (cases contracts)
    case None
    with Suc.prems show ?thesis by simp
  next
    case (Some cs)
    show ?thesis
    proof (cases info)
      case None
      with Suc.prems Some show ?thesis by simp
    next
      case (Some ci)
      note info = this
      show ?thesis
      proof (cases "find (\<lambda>method. Some (functionName method) = name call) (methodCalls ci)")
        case (Some m)
        then have "m \<in> set (methodCalls ci)" "Some (functionName m) = name call"
          by (auto simp: find_Some_iff)
        moreover have "renamed ci vt call = Ret s"
          using Suc.prems \<open>contracts = Some cs\<close> info Some by (simp add: obind_Ret)
        ultimately show ?thesis using info by blast
      next
        case None
        let ?bases = "forEach_visit
                  (\<lambda>extending.
                     findAndRenameCall fuel (Some cs) contractRoot
                       (find (\<lambda>c. contractName c = Some extending) cs) vt call)
                  (extendsContracts ci) None"
        let ?imports = "forEach_visit
                    (\<lambda>importContract.
                       if path_parse_name importContract \<in> set (extendsContracts ci)
                       then Ret None
                       else
                         findAndRenameCall fuel (Some cs) contractRoot
                           (find (\<lambda>c. contractName c = Some (path_parse_name importContract)) cs)
                           vt call)
                    (importList ci) None"
        have "?bases = Ret (Some s) \<or> ?imports = Ret (Some s)"
          using Suc.prems \<open>contracts = Some cs\<close> info None
          by (auto split: outcome.splits if_splits)
        then obtain n where "findAndRenameCall fuel (Some cs) contractRoot
                       (find (\<lambda>c. contractName c = Some n) cs) vt call = Ret (Some s)"
          by (auto dest!: forEach_visit_Some split: if_splits)
        from Suc.IH[unfolded \<open>contracts = Some cs\<close>, OF this] obtain c where
          c: "find (\<lambda>c. contractName c = Some n) cs = Some c \<or> c \<in> set cs"
             "\<exists>m \<in> set (methodCalls c). Some (functionName m) = name call"
             "renamed c vt call = Ret s"
          by auto
        from c(1) have "c \<in> set cs"
          by (auto simp: find_Some_iff)
        with c(2,3) \<open>contracts = Some cs\<close> show ?thesis by blast
      qed
    qed
  qed
qed

lemma arg_segment_form:
  "arg_segment vt a = Ret segment \<Longrightarrow> segment = [] \<or> (\<exists>t. segment = '':'' @ t)"
  by (cases a) (auto simp: obind_Ret split: if_splits)

lemma arg_segments_types:
  "mapM (arg_segment vt) as = Ret segments \<Longrightarrow>
     \<exists>types. concat segments = concat (map (\<lambda>t. '':'' @ t) types)
       \<and> length types \<le> length as"
proof (induction as arbitrary: segments)
  case Nil
  then have "segments = []" by simp
  then show ?case by (intro exI[of _ "[]"]) simp
next
  case (Cons a as)
  from Cons.prems obtain segment rest where
    a: "arg_segment vt a = Ret segment" and rest: "mapM (arg_segment vt) as = Ret rest"
    and segments: "segments = segment # rest"
    by (auto simp: obind_Ret)
  from Cons.IH[OF rest] obtain types where
    t: "concat rest = concat (map (\<lambda>t. '':'' @ t) types)" "length types \<le> length as"
    by blast
  from arg_segment_form[OF a] show ?case
  proof
    assume "segment = []"
    with t segments show ?thesis by (intro exI[of _ types]) simp
  next
    assume "\<exists>t. segment = '':'' @ t"
    then obtain x where "segment = '':'' @ x" by blast
    with t segments show ?thesis by (intro exI[of _ "x # types"]) simp
  qed
qed

lemma mapM_snoc:
  "mapM f (xs @ [x]) = Ret ys \<Longrightarrow> \<exists>zs y. mapM f xs = Ret zs \<and> f x = Ret y \<and> ys = zs @ [y]"
  by (induction xs arbitrary: ys) (auto simp: obind_Ret)

section \<open>Direct calls of a function\<close>

text \<open>
  Claim C1 says that a direct call goes unrecorded for its name only when it is a call of
  the function's own name from a body of one statement, so that \<^verbatim>\<open>greet()\<close> in
  \<^verbatim>\<open>function hello() { greet(); }\<close> and \<^verbatim>\<open>retry()\<close> in
  \<^verbatim>\<open>function retry() { retry(); greet(); }\<close> are both recorded. The handler records a
  call only when the name differs and the body has more than one statement: it records
  nothing for any call from a body of one statement and nothing for any call of the
  function's own name. So \<^verbatim>\<open>hello\<close> records nothing, \<^verbatim>\<open>retry\<close> records \<^verbatim>\<open>greet\<close> only, and
  the end-to-end scenario of the specification (\<^verbatim>\<open>Child.sol\<close> importing \<^verbatim>\<open>Base.sol\<close>)
  ends with no call for \<^verbatim>\<open>Child:hello\<close>.
\<close>

theorem single_statement_body_records_no_call:
  "parserFunctionVisitor_FunctionCall contractsList ignoresList
     (fDef\<lparr>body := Some [statement]\<rparr>) expression arguments = []
   \<and> parserFunctionVisitor_FunctionCall contractsList ignoresList
       (fDef\<lparr>fd_name := callee\<rparr>) (Identifier callee) arguments = []
   \<and> function_callMethods [''Base'', ''Child''] [] hello_fDef = []
   \<and> function_callMethods [] [] retry_fDef = [\<lparr>name = Some ''greet'', args = []\<rparr>]
   \<and> parsing 2 base_child_files [''Child.sol'']
     = Ret [(''Child.sol'',
             [\<lparr>contractName = Some ''Base'', extendsContracts = [], importList = [],
               methodCalls =
                 [\<lparr>functionName = ''greet'', functionDefinition = ''Base:greet'',
                   callMethods = []\<rparr>]\<rparr>,
              \<lparr>contractName = Some ''Child'', extendsContracts = [''Base''],
               importList = [''Base.sol''],
               methodCalls =
                 [\<lparr>functionName = ''hello'', functionDefinition = ''Child:hello'',
                   callMethods = []\<rparr>]\<rparr>])]"
proof -
  have one: "parserFunctionVisitor_FunctionCall contractsList ignoresList
     (fDef\<lparr>body := Some [statement]\<rparr>) expression arguments = []"
    by (simp add: parserFunctionVisitor_FunctionCall_def)
  have self: "parserFunctionVisitor_FunctionCall contractsList ignoresList
       (fDef\<lparr>fd_name := callee\<rparr>) (Identifier callee) arguments = []"
    by (simp add: parserFunctionVisitor_FunctionCall_def split: option.splits)
  have hello: "function_callMethods [''Base'', ''Child''] [] hello_fDef = []"
    by code_simp
  have retry: "function_callMethods [] [] retry_fDef = [\<lparr>name = Some ''greet'', args = []\<rparr>]"
    by code_simp
  have scenario: "parsing 2 base_child_files [''Child.sol'']
     = Ret [(''Child.sol'',
             [\<lparr>contractName = Some ''Base'', extendsContracts = [], importList = [],
               methodCalls =
                 [\<lparr>functionName = ''greet'', functionDefinition = ''Base:greet'',
                   callMethods = []\<rparr>]\<rparr>,
              \<lparr>contractName = Some ''Child'', extendsContracts = [''Base''],
               importList = [''Base.sol''],
               methodCalls =
                 [\<lparr>functionName = ''hello'', functionDefinition = ''Child:hello'',
                   callMethods = []\<rparr>]\<rparr>])]"
    by code_simp
  from one self hello retry scenario show ?thesis by (intro conjI)
qed

section \<open>Ancestor precedence\<close>

lemma forEach_visit_unresolved:
  "\<forall>e \<in> set later. visit e = Ret None \<Longrightarrow> forEach_visit visit later found = Ret found"
  by (induction later arbitrary: found) simp_all

lemma forEach_visit_last_wins:
  assumes "\<forall>e \<in> set earlier. \<exists>r. visit e = Ret r"
    and "visit b = Ret (Some s)"
    and "\<forall>e \<in> set later. visit e = Ret None"
  shows "forEach_visit visit (earlier @ b # later) found = Ret (Some s)"
  using assms(1)
proof (induction earlier arbitrary: found)
  case Nil
  show ?case using assms(2) forEach_visit_unresolved[OF assms(3)] by simp
next
  case (Cons e earlier)
  from Cons.prems obtain r where "visit e = Ret r" by auto
  moreover from Cons.prems have "\<forall>e \<in> set earlier. \<exists>r. visit e = Ret r" by simp
  ultimately show ?case using Cons.IH by simp
qed

text \<open>
  The tie-break among base contracts in general: when the current record has no
  function of the callee's name, the answer of the resolver is the result of the last
  base contract, in the order of \<^verbatim>\<open>extendsContracts\<close>, whose own resolution is not
  \<^verbatim>\<open>undefined\<close>, provided the resolutions of the bases before it return.
\<close>

lemma last_resolving_ancestor_wins:
  assumes "\<forall>m \<in> set (methodCalls child). functionName m \<noteq> f"
    and "name call = Some f"
    and "extendsContracts child = earlier @ b # later"
    and "\<forall>e \<in> set earlier. \<exists>r.
           findAndRenameCall fuel (Some contracts) contractRoot
             (find (\<lambda>c. contractName c = Some e) contracts) vt call = Ret r"
    and "findAndRenameCall fuel (Some contracts) contractRoot
           (find (\<lambda>c. contractName c = Some b) contracts) vt call = Ret (Some s)"
    and "\<forall>e \<in> set later.
           findAndRenameCall fuel (Some contracts) contractRoot
             (find (\<lambda>c. contractName c = Some e) contracts) vt call = Ret None"
  shows "findAndRenameCall (Suc fuel) (Some contracts) contractRoot (Some child) vt call
         = Ret (Some s)"
proof -
  have "find (\<lambda>m. Some (functionName m) = name call) (methodCalls child) = None"
    using assms(1,2) by (auto simp: find_None_iff)
  moreover have "forEach_visit
          (\<lambda>extending.
             findAndRenameCall fuel (Some contracts) contractRoot
               (find (\<lambda>c. contractName c = Some extending) contracts) vt call)
          (earlier @ b # later) None = Ret (Some s)"
    by (rule forEach_visit_last_wins) (use assms(4-6) in auto)
  ultimately show ?thesis using assms(3) by simp
qed

text \<open>
  What the resolver does when the current record has a function of the callee's name:
  it builds the identifier from the current record and the arguments alone, whatever
  the universe, the base contracts and the imports are, and it throws when, and only
  when, the lookup of an argument throws.
\<close>

lemma local_resolution:
  assumes "method \<in> set (methodCalls contractInfo)"
    and "name call = Some (functionName method)"
  shows "findAndRenameCall (Suc fuel) (Some contracts) contractRoot (Some contractInfo)
           variableTypeMap call
         = obind (mapM (arg_segment variableTypeMap) (args call))
             (\<lambda>segments.
                Ret (Some (js_string (contractName contractInfo) @ '':'' @ functionName method
                             @ concat segments)))"
proof -
  have "find (\<lambda>m. Some (functionName m) = name call) (methodCalls contractInfo) \<noteq> None"
    using assms by (auto simp: find_None_iff)
  then obtain m where
    "find (\<lambda>m. Some (functionName m) = name call) (methodCalls contractInfo) = Some m"
    by blast
  then show ?thesis
    using assms(2)
    by (cases "mapM (arg_segment variableTypeMap) (args call)")
       (simp_all add: renamed_def js_string_def obind_def)
qed

text \<open>
  With two base contracts that both have a function of the callee's name, the later one
  gives the answer, when the lookups of the arguments return.
\<close>

lemma two_ancestors_last_wins:
  assumes "extendsContracts child = [a, b]"
    and "\<forall>m \<in> set (methodCalls child). functionName m \<noteq> f"
    and "name call = Some f"
    and "find (\<lambda>c. contractName c = Some a) contracts = Some recA"
    and "ma \<in> set (methodCalls recA)" and "functionName ma = f"
    and "find (\<lambda>c. contractName c = Some b) contracts = Some recB"
    and "mb \<in> set (methodCalls recB)" and "functionName mb = f"
    and "mapM (arg_segment vt) (args call) = Ret segments"
  shows "findAndRenameCall (Suc (Suc fuel)) (Some contracts) contractRoot (Some child) vt call
         = Ret (Some (b @ '':'' @ f @ concat segments))"
proof -
  have A: "findAndRenameCall (Suc fuel) (Some contracts) contractRoot (Some recA) vt call
       = Ret (Some (js_string (contractName recA) @ '':'' @ f @ concat segments))"
    using local_resolution[OF assms(5), of call fuel contracts contractRoot vt] assms(3,6,10)
    by (simp add: obind_def)
  have "contractName recB = Some b"
    using assms(7) by (auto simp: find_Some_iff)
  then have B: "findAndRenameCall (Suc fuel) (Some contracts) contractRoot (Some recB) vt call
       = Ret (Some (b @ '':'' @ f @ concat segments))"
    using local_resolution[OF assms(8), of call fuel contracts contractRoot vt] assms(3,9,10)
    by (simp add: obind_def js_string_def)
  show ?thesis
    by (rule last_resolving_ancestor_wins[where earlier = "[a]" and later = "[]" and b = b
          and f = f])
       (use assms(1-4,7) A B in auto)
qed

text \<open>
  Claim C2 says that resolving a call of \<^verbatim>\<open>f\<close> from \<^verbatim>\<open>Child is A, B\<close>, where \<^verbatim>\<open>A\<close> and
  \<^verbatim>\<open>B\<close> define \<^verbatim>\<open>f\<close> and \<^verbatim>\<open>Child\<close> does not, returns the identifier of \<^verbatim>\<open>B\<close>. The
  resolver builds the identifier in \<^verbatim>\<open>A\<close> first, and there it reads
  \<^verbatim>\<open>value.typeName.name\<close> of the declaration of an identifier argument: for the call
  \<^verbatim>\<open>f(a)\<close> with \<^verbatim>\<open>a\<close> declared by \<^verbatim>\<open>var (a, b) = pair()\<close>, a declaration without
  \<^verbatim>\<open>typeName\<close>, it throws, and so does \<^verbatim>\<open>parsing\<close> on \<^verbatim>\<open>Child.sol\<close>. With \<^verbatim>\<open>a\<close> declared
  as \<^verbatim>\<open>uint256 a\<close> the same call resolves to \<^verbatim>\<open>B:f:uint256\<close>. The registry and the
  universe of the statement are what the profiler and the extractor return for the files.
\<close>

theorem ancestor_argument_lookup_throws:
  "profileData (Suc (Suc fuel)) tie_files ''Child.sol'' ([], [], [], [])
     = Ret ([''A.sol'', ''B.sol''], [], [''A'', ''B'', ''Child''],
            [(''A'', []), (''B'', []), (''Child'', [(''a'', None), (''b'', None)])])
   \<and> processData (Suc (Suc fuel)) tie_files (Some ''Child.sol'') [] [] [''A'', ''B'', ''Child'']
     = Ret ([tie_A, tie_B, tie_Child], [Some ''A.sol'', Some ''B.sol''])
   \<and> findAndRenameCall (Suc (Suc fuel)) (Some [tie_A, tie_B, tie_Child]) tie_Child
       (Some tie_Child)
       [(''A'', []), (''B'', []), (''Child'', [(''a'', None), (''b'', None)])] fa_call = Fault
   \<and> findAndRenameCall (Suc (Suc fuel)) (Some [tie_A, tie_B, tie_Child]) tie_Child
       (Some tie_Child)
       [(''A'', []), (''B'', []), (''Child'', [(''a'', Some uint256_type)])] fa_call
     = Ret (Some ''B:f:uint256'')
   \<and> parsing (Suc (Suc fuel)) tie_files [''Child.sol''] = Fault"
proof -
  have profile: "profileData (Suc (Suc fuel)) tie_files ''Child.sol'' ([], [], [], [])
     = Ret ([''A.sol'', ''B.sol''], [], [''A'', ''B'', ''Child''],
            [(''A'', []), (''B'', []), (''Child'', [(''a'', None), (''b'', None)])])"
    by (simp add: tie_files_def obind_def)
  have process:
    "processData (Suc (Suc fuel)) tie_files (Some ''Child.sol'') [] [] [''A'', ''B'', ''Child'']
     = Ret ([tie_A, tie_B, tie_Child], [Some ''A.sol'', Some ''B.sol''])"
    by (simp add: tie_files_def tie_A_def tie_B_def tie_Child_def f_fDef_def pair_fDef_def
        gf_fDef_def pair_call_def fa_call_def obind_def visit_unvisited_def
        first_import_with_def signature_of_def js_string_def declared_type_def
        uint256_type_def function_callMethods_def parserFunctionVisitor_FunctionCall_def
        isCountableStatement_def isKeywordFunction_def list_includes_def Let_def)
  have untyped: "findAndRenameCall (Suc (Suc fuel)) (Some [tie_A, tie_B, tie_Child]) tie_Child
       (Some tie_Child)
       [(''A'', []), (''B'', []), (''Child'', [(''a'', None), (''b'', None)])] fa_call = Fault"
    by (simp add: tie_A_def tie_B_def tie_Child_def fa_call_def pair_call_def renamed_def
        lookup_argType_def lookup_round_def obind_def)
  have typed: "findAndRenameCall (Suc (Suc fuel)) (Some [tie_A, tie_B, tie_Child]) tie_Child
       (Some tie_Child)
       [(''A'', []), (''B'', []), (''Child'', [(''a'', Some uint256_type)])] fa_call
     = Ret (Some ''B:f:uint256'')"
    by (simp add: tie_A_def tie_B_def tie_Child_def fa_call_def pair_call_def renamed_def
        lookup_argType_def lookup_round_def obind_def declared_type_def uint256_type_def
        js_string_def)
  have "rename_contract (Suc (Suc fuel)) [tie_A, tie_B, tie_Child]
          [(''A'', []), (''B'', []), (''Child'', [(''a'', None), (''b'', None)])] tie_Child
        = Fault"
    using untyped
    by (simp add: rename_contract_def rename_method_def rename_call_def obind_def
        tie_Child_def pair_call_def fa_call_def renamed_def)
  then have run: "parsing (Suc (Suc fuel)) tie_files [''Child.sol''] = Fault"
    using profile process
    by (simp add: parsing_def renameToSymLinks_def obind_def rename_contract_def
        rename_method_def tie_A_def tie_B_def)
  from profile process untyped typed run show ?thesis by (intro conjI)
qed

section \<open>Resolution in the current contract\<close>

text \<open>
  Claim C3 says that a call whose callee is a function of the current contract record
  resolves to the identifier of the current contract, without a look at the ancestors.
  No ancestor is looked at (\<open>local_resolution\<close>), but building the identifier reads
  \<^verbatim>\<open>value.typeName.name\<close> of the declaration of an identifier argument: in \<^verbatim>\<open>V.sol\<close> the
  call \<^verbatim>\<open>h(a)\<close> of \<^verbatim>\<open>g\<close>, with \<^verbatim>\<open>h\<close> a function of the same contract and \<^verbatim>\<open>a\<close> declared
  by \<^verbatim>\<open>var (a, b) = pair()\<close>, a declaration without \<^verbatim>\<open>typeName\<close>, makes the resolver
  throw, and \<^verbatim>\<open>parsing\<close> with it. With \<^verbatim>\<open>a\<close> declared as \<^verbatim>\<open>uint256 a\<close> the same call
  resolves to \<^verbatim>\<open>V:h:uint256\<close>. The registry and the universe of the statement are what
  the profiler and the extractor return for the file.
\<close>

theorem local_argument_lookup_throws:
  "profileData (Suc fuel) vault_files ''V.sol'' ([], [], [], [])
     = Ret ([], [], [''V''], [(''V'', [(''a'', None), (''b'', None)])])
   \<and> processData (Suc fuel) vault_files (Some ''V.sol'') [] [] [''V'']
     = Ret ([vault_record], [])
   \<and> findAndRenameCall (Suc fuel) (Some [vault_record]) vault_record (Some vault_record)
       [(''V'', [(''a'', None), (''b'', None)])] ha_call = Fault
   \<and> findAndRenameCall (Suc fuel) (Some [vault_record]) vault_record (Some vault_record)
       [(''V'', [(''a'', Some uint256_type)])] ha_call = Ret (Some ''V:h:uint256'')
   \<and> parsing (Suc fuel) vault_files [''V.sol''] = Fault"
proof -
  have profile: "profileData (Suc fuel) vault_files ''V.sol'' ([], [], [], [])
     = Ret ([], [], [''V''], [(''V'', [(''a'', None), (''b'', None)])])"
    by (simp add: vault_files_def obind_def)
  have process: "processData (Suc fuel) vault_files (Some ''V.sol'') [] [] [''V'']
     = Ret ([vault_record], [])"
    by (simp add: vault_files_def vault_record_def h_fDef_def pair_fDef_def gh_fDef_def
        pair_call_def ha_call_def obind_def signature_of_def js_string_def declared_type_def
        uint256_type_def function_callMethods_def parserFunctionVisitor_FunctionCall_def
        isCountableStatement_def isKeywordFunction_def list_includes_def Let_def)
  have untyped: "findAndRenameCall (Suc fuel) (Some [vault_record]) vault_record
     (Some vault_record) [(''V'', [(''a'', None), (''b'', None)])] ha_call = Fault"
    by (simp add: vault_record_def ha_call_def pair_call_def renamed_def lookup_argType_def
        lookup_round_def obind_def)
  have typed: "findAndRenameCall (Suc fuel) (Some [vault_record]) vault_record
       (Some vault_record) [(''V'', [(''a'', Some uint256_type)])] ha_call
     = Ret (Some ''V:h:uint256'')"
    by (simp add: vault_record_def ha_call_def pair_call_def renamed_def lookup_argType_def
        lookup_round_def obind_def declared_type_def uint256_type_def js_string_def)
  have "rename_contract (Suc fuel) [vault_record] [(''V'', [(''a'', None), (''b'', None)])]
          vault_record = Fault"
    using untyped
    by (simp add: rename_contract_def rename_method_def rename_call_def obind_def
        vault_record_def pair_call_def ha_call_def renamed_def)
  then have run: "parsing (Suc fuel) vault_files [''V.sol''] = Fault"
    using profile process
    by (simp add: parsing_def renameToSymLinks_def obind_def)
  from profile process untyped typed run show ?thesis by (intro conjI)
qed

section \<open>Cyclic imports\<close>

lemma cyclic_profile:
  "profileData (Suc (Suc (Suc fuel))) cyclic_files ''A.sol'' ([], [], [], variableTypeMap)
     = Ret ([''B.sol'', ''A.sol''], [], [''A'', ''B'', ''A''],
            map_set ''A'' [] (map_set ''B'' [] (map_set ''A'' [] variableTypeMap)))"
  by (simp add: cyclic_files_def obind_def)

lemma cyclic_process:
  "processData (Suc (Suc (Suc fuel))) cyclic_files (Some ''A.sol'') [] [] [''A'', ''B'', ''A'']
     = Ret ([cyclic_A, cyclic_B, cyclic_A], [Some ''B.sol'', Some ''A.sol''])"
  by (simp add: cyclic_files_def cyclic_A_def cyclic_B_def run_fDef_def keccak_call_def
      visit_unvisited_def obind_def first_import_with_def signature_of_def js_string_def
      function_callMethods_def parserFunctionVisitor_FunctionCall_def isCountableStatement_def
      isKeywordFunction_def list_includes_def Let_def)

lemma cyclic_resolution:
  "findAndRenameCall fuel (Some [cyclic_A, cyclic_B, cyclic_A]) contractRoot (Some cyclic_A)
     variableTypeMap keccak_call = OutOfFuel
   \<and> findAndRenameCall fuel (Some [cyclic_A, cyclic_B, cyclic_A]) contractRoot (Some cyclic_B)
       variableTypeMap keccak_call = OutOfFuel"
  by (induction fuel)
     (simp_all add: cyclic_A_def cyclic_B_def keccak_call_def path_parse_name_def)

lemma cyclic_linking:
  "renameToSymLinks fuel [(''A.sol'', [cyclic_A, cyclic_B, cyclic_A])] variableTypeMap = OutOfFuel"
proof -
  have "rename_call fuel [cyclic_A, cyclic_B, cyclic_A] cyclic_A variableTypeMap keccak_call
          = OutOfFuel"
    using cyclic_resolution[of fuel cyclic_A variableTypeMap]
    by (simp add: rename_call_def obind_def)
  then have "rename_contract fuel [cyclic_A, cyclic_B, cyclic_A] variableTypeMap cyclic_A
          = OutOfFuel"
    by (simp add: rename_contract_def rename_method_def obind_def cyclic_A_def)
  then show ?thesis
    by (simp add: renameToSymLinks_def obind_def)
qed

text \<open>
  Claim C4 says that extraction over a cyclic import returns exactly one record per
  contract. For \<^verbatim>\<open>A.sol\<close> and \<^verbatim>\<open>B.sol\<close> importing each other, with \<^verbatim>\<open>A.sol\<close> the entry
  file, extraction returns (with any fuel of three or more) and its result holds the
  record of \<^verbatim>\<open>A\<close> twice: \<^verbatim>\<open>parsing\<close> starts with an empty \<^verbatim>\<open>importVisited\<close>, so the
  entry file is processed again when \<^verbatim>\<open>B.sol\<close> imports it. The profiler visits it twice
  in the same way, which is where the contract list of the statement comes from.
\<close>

theorem cyclic_import_duplicates_entry_record:
  "profileData (Suc (Suc (Suc fuel))) cyclic_files ''A.sol'' ([], [], [], [])
     = Ret ([''B.sol'', ''A.sol''], [], [''A'', ''B'', ''A''], [(''A'', []), (''B'', [])])
   \<and> processData (Suc (Suc (Suc fuel))) cyclic_files (Some ''A.sol'') [] [] [''A'', ''B'', ''A'']
     = Ret ([cyclic_A, cyclic_B, cyclic_A], [Some ''B.sol'', Some ''A.sol''])"
  using cyclic_profile[of fuel "[]"] cyclic_process[of fuel] by simp

text \<open>
  Claim C5 says that the resolver terminates with the unresolved marker when nothing
  reachable defines the callee, cyclic imports included. On the universe extracted
  from \<^verbatim>\<open>A.sol\<close> and \<^verbatim>\<open>B.sol\<close> importing each other, the call of \<^verbatim>\<open>keccak256\<close>, which no
  contract defines, is looked for in \<^verbatim>\<open>A\<close>, then in its import \<^verbatim>\<open>B\<close>, then in the import
  \<^verbatim>\<open>A\<close> of \<^verbatim>\<open>B\<close>, and so on: no depth of recursion is enough, and neither the resolver
  nor \<^verbatim>\<open>parsing\<close> on the entry file \<^verbatim>\<open>A.sol\<close> returns.
\<close>

theorem cyclic_import_resolution_never_returns:
  "findAndRenameCall fuel (Some [cyclic_A, cyclic_B, cyclic_A]) cyclic_A (Some cyclic_A)
     variableTypeMap keccak_call = OutOfFuel
   \<and> parsing fuel cyclic_files [''A.sol''] = OutOfFuel"
proof -
  have "parsing fuel cyclic_files [''A.sol''] = OutOfFuel"
  proof (cases "fuel < 3")
    case True
    then consider "fuel = 0" | "fuel = Suc 0" | "fuel = Suc (Suc 0)" by linarith
    then show ?thesis
      by cases (simp_all add: parsing_def obind_def cyclic_files_def)
  next
    case False
    then have "fuel = Suc (Suc (Suc (fuel - 3)))" by simp
    then obtain n where "fuel = Suc (Suc (Suc n))" ..
    then show ?thesis
      using cyclic_profile[of n "[]"] cyclic_process[of n]
        cyclic_linking[of fuel "[(''A'', []), (''B'', [])]"]
      by (simp add: parsing_def obind_def)
  qed
  with cyclic_resolution[of fuel cyclic_A variableTypeMap] show ?thesis by simp
qed

section \<open>Member-access arguments\<close>

text \<open>
  Claim C6, as stated, at the member-style call it names. In \<^verbatim>\<open>Wallet.sol\<close>, which
  defines \<^verbatim>\<open>transfer\<close>, the statement \<^verbatim>\<open>x.transfer(msg.value)\<close> of \<^verbatim>\<open>pay\<close> records no call
  at all (\<^verbatim>\<open>x\<close> is a plain identifier), and \<^verbatim>\<open>super.transfer(msg.value)\<close> of \<^verbatim>\<open>payUp\<close>
  records \<^verbatim>\<open>transfer\<close> with the arguments of \<^verbatim>\<open>super\<close>, that is none, so that it resolves
  to \<^verbatim>\<open>Wallet:transfer\<close>: no identifier ends with the segment \<^verbatim>\<open>uint256\<close>.
\<close>

theorem member_call_argument_counterexample:
  "parsing 1 wallet_files [''Wallet.sol'']
     = Ret [(''Wallet.sol'',
             [\<lparr>contractName = Some ''Wallet'', extendsContracts = [], importList = [],
               methodCalls =
                 [\<lparr>functionName = ''transfer'',
                   functionDefinition = ''Wallet:transfer:uint256'', callMethods = []\<rparr>,
                  \<lparr>functionName = ''pay'', functionDefinition = ''Wallet:pay'',
                   callMethods = []\<rparr>,
                  \<lparr>functionName = ''payUp'', functionDefinition = ''Wallet:payUp'',
                   callMethods = [\<lparr>name = Some ''Wallet:transfer'', args = []\<rparr>]\<rparr>]\<rparr>])]
   \<and> (\<forall>p. ''Wallet:transfer'' \<noteq> p @ '':uint256'')"
proof -
  have run: "parsing 1 wallet_files [''Wallet.sol'']
     = Ret [(''Wallet.sol'',
             [\<lparr>contractName = Some ''Wallet'', extendsContracts = [], importList = [],
               methodCalls =
                 [\<lparr>functionName = ''transfer'',
                   functionDefinition = ''Wallet:transfer:uint256'', callMethods = []\<rparr>,
                  \<lparr>functionName = ''pay'', functionDefinition = ''Wallet:pay'',
                   callMethods = []\<rparr>,
                  \<lparr>functionName = ''payUp'', functionDefinition = ''Wallet:payUp'',
                   callMethods = [\<lparr>name = Some ''Wallet:transfer'', args = []\<rparr>]\<rparr>]\<rparr>])]"
    by code_simp
  have "''Wallet:transfer'' \<noteq> p @ '':uint256''" for p :: string
  proof
    assume "''Wallet:transfer'' = p @ '':uint256''"
    then have "last ''Wallet:transfer'' = last (p @ '':uint256'')" by simp
    then show False by simp
  qed
  with run show ?thesis by blast
qed

text \<open>
  Claim C6, amended. A member access named \<^verbatim>\<open>sender\<close> appends \<^verbatim>\<open>:address\<close>, one named
  \<^verbatim>\<open>value\<close> appends \<^verbatim>\<open>:uint256\<close>, any other member access appends nothing; every string
  the resolver returns is the name of the defining record, the callee's name and the
  segments of the call's recorded arguments in order; so a recorded call whose last
  argument is \<^verbatim>\<open>msg.value\<close>, as the direct call \<^verbatim>\<open>transfer(msg.value)\<close> records it,
  resolves to an identifier that ends with \<^verbatim>\<open>:uint256\<close>.
\<close>

theorem member_access_segments:
  "arg_segment vt (MemberAccess e ''sender'') = Ret '':address''
   \<and> arg_segment vt (MemberAccess e ''value'') = Ret '':uint256''
   \<and> (memberName \<noteq> ''sender'' \<longrightarrow> memberName \<noteq> ''value'' \<longrightarrow>
        arg_segment vt (MemberAccess e memberName) = Ret [])
   \<and> (findAndRenameCall fuel contracts contractRoot info vt call = Ret (Some s) \<longrightarrow>
        (\<exists>c segments. (info = Some c \<or> (\<exists>cs. contracts = Some cs \<and> c \<in> set cs))
           \<and> mapM (arg_segment vt) (args call) = Ret segments
           \<and> s = js_string (contractName c) @ '':'' @ js_string (name call)
                  @ concat segments))
   \<and> (findAndRenameCall fuel contracts contractRoot info vt call = Ret (Some s) \<longrightarrow>
        args call = as @ [MemberAccess e ''value''] \<longrightarrow> (\<exists>p. s = p @ '':uint256''))"
proof -
  have form: "\<exists>c segments. (info = Some c \<or> (\<exists>cs. contracts = Some cs \<and> c \<in> set cs))
           \<and> mapM (arg_segment vt) (args call) = Ret segments
           \<and> s = js_string (contractName c) @ '':'' @ js_string (name call)
                  @ concat segments"
    if "findAndRenameCall fuel contracts contractRoot info vt call = Ret (Some s)"
  proof -
    from findAndRenameCall_Some[OF that] obtain c where
      c: "info = Some c \<or> (\<exists>cs. contracts = Some cs \<and> c \<in> set cs)"
      and r: "renamed c vt call = Ret s"
      by blast
    from r obtain segments where
      "mapM (arg_segment vt) (args call) = Ret segments"
      "s = js_string (contractName c) @ '':'' @ js_string (name call) @ concat segments"
      by (auto simp: renamed_def obind_Ret)
    with c show ?thesis by blast
  qed
  have last: "\<exists>p. s = p @ '':uint256''"
    if r: "findAndRenameCall fuel contracts contractRoot info vt call = Ret (Some s)"
      and a: "args call = as @ [MemberAccess e ''value'']"
  proof -
    from form[OF r] obtain c :: ContractRecord and segments where
      m: "mapM (arg_segment vt) (args call) = Ret segments"
      and s: "s = js_string (contractName c) @ '':'' @ js_string (name call) @ concat segments"
      by blast
    from mapM_snoc[OF m[unfolded a]] obtain zs y where
      "arg_segment vt (MemberAccess e ''value'') = Ret y" "segments = zs @ [y]"
      by blast
    then have "segments = zs @ ['':uint256'']" by simp
    with s have "s = (js_string (contractName c) @ '':'' @ js_string (name call) @ concat zs)
                       @ '':uint256''"
      by simp
    then show ?thesis by blast
  qed
  show ?thesis using form last by simp
qed

text \<open>
  The theorem at the recorded call \<^verbatim>\<open>transfer(msg.value)\<close>, resolved in \<^verbatim>\<open>Wallet\<close>, and at
  the member access \<^verbatim>\<open>msg.data\<close>.
\<close>

theorem member_access_segments_witness:
  "findAndRenameCall 1 (Some [wallet_record]) wallet_record (Some wallet_record) [] transfer_call
     = Ret (Some ''Wallet:transfer:uint256'')
   \<and> (\<exists>p. ''Wallet:transfer:uint256'' = p @ '':uint256'')
   \<and> arg_segment [] (MemberAccess (Identifier ''msg'') ''data'') = Ret []"
proof -
  have r: "findAndRenameCall 1 (Some [wallet_record]) wallet_record (Some wallet_record) []
             transfer_call = Ret (Some ''Wallet:transfer:uint256'')"
    by code_simp
  have a: "args transfer_call = [] @ [MemberAccess (Identifier ''msg'') ''value'']"
    by (simp add: transfer_call_def msg_value_def)
  have n: "''data'' \<noteq> ''sender''" "''data'' \<noteq> ''value''" by simp_all
  from member_access_segments[of "[]" "Identifier ''msg''" "''data''" 1 "Some [wallet_record]"
        wallet_record "Some wallet_record" transfer_call "''Wallet:transfer:uint256''" "[]"] r a n
  show ?thesis by blast
qed

section \<open>Ignored names\<close>

text \<open>
  Claim C7 says that no call list holds the name of a declared event or struct, on the
  direct-call path and on the member-access path. The member-access handler does not
  look at \<^verbatim>\<open>ignoresList\<close>: for \<^verbatim>\<open>Store.sol\<close> importing \<^verbatim>\<open>Lib.sol\<close>, the profiler puts the
  struct name \<^verbatim>\<open>Data\<close> of \<^verbatim>\<open>Lib\<close> into \<^verbatim>\<open>ignoresList\<close>, and extraction with that list
  records \<^verbatim>\<open>Data\<close> as a call of \<^verbatim>\<open>Store:save\<close>, from \<^verbatim>\<open>Lib.Data(1)\<close>.
\<close>

theorem member_access_records_ignored_name:
  "profileData 2 lib_files ''Store.sol'' ([], [], [], [])
     = Ret ([''Lib.sol''], [''Data''], [''Lib'', ''Store''],
            [(''Lib'', [(''size'', Some uint256_type)]), (''Store'', [])])
   \<and> processData 2 lib_files (Some ''Store.sol'') [] [''Data''] [''Lib'', ''Store'']
     = Ret ([\<lparr>contractName = Some ''Lib'', extendsContracts = [], importList = [],
              methodCalls = []\<rparr>,
             \<lparr>contractName = Some ''Store'', extendsContracts = [], importList = [''Lib.sol''],
              methodCalls =
                [\<lparr>functionName = ''save'', functionDefinition = ''Store:save'',
                  callMethods = [\<lparr>name = Some ''Data'', args = []\<rparr>]\<rparr>]\<rparr>],
            [Some ''Lib.sol''])"
  by code_simp

section \<open>Identifiers after linking\<close>

lemma rename_call_resolved:
  assumes "rename_call fuel cs ci vt call = Ret call'" and "ci \<in> set cs"
  shows "name call' = None \<or> (\<exists>s. name call' = Some s \<and> qualified_identifier cs s)"
proof (cases "name call'")
  case None
  then show ?thesis by simp
next
  case (Some s)
  from assms(1) obtain r where
    r: "findAndRenameCall fuel (Some cs) ci (Some ci) vt call = Ret r" and "call' = call\<lparr>name := r\<rparr>"
    by (auto simp: rename_call_def obind_Ret)
  with Some have "findAndRenameCall fuel (Some cs) ci (Some ci) vt call = Ret (Some s)"
    by simp
  from findAndRenameCall_Some[OF this] obtain c m where
    c: "c = ci \<or> c \<in> set cs" and m: "m \<in> set (methodCalls c)"
    and n: "Some (functionName m) = name call" and s: "renamed c vt call = Ret s"
    by auto
  from c assms(2) have "c \<in> set cs" by blast
  from s obtain segments where
    segments: "mapM (arg_segment vt) (args call) = Ret segments"
    and id: "s = js_string (contractName c) @ '':'' @ js_string (name call) @ concat segments"
    by (auto simp: renamed_def obind_Ret)
  from arg_segments_types[OF segments] obtain types where
    "concat segments = concat (map (\<lambda>t. '':'' @ t) types)"
    by blast
  moreover have "js_string (name call) = functionName m"
    unfolding n[symmetric] by (simp add: js_string_def)
  ultimately have "s = js_string (contractName c) @ '':'' @ functionName m
                       @ concat (map (\<lambda>t. '':'' @ t) types)"
    using id by simp
  with \<open>c \<in> set cs\<close> m have "qualified_identifier cs s"
    unfolding qualified_identifier_def by blast
  with Some show ?thesis by simp
qed

lemma rename_method_functionName:
  "rename_method fuel cs ci vt m = Ret m' \<Longrightarrow> functionName m' = functionName m"
  by (auto simp: rename_method_def obind_Ret)

lemma rename_contract_names:
  assumes "rename_contract fuel cs vt ci = Ret ci'"
  shows "contractName ci' = contractName ci"
    and "functionName ` set (methodCalls ci) \<subseteq> functionName ` set (methodCalls ci')"
proof -
  from assms obtain ms where
    ms: "mapM (rename_method fuel cs ci vt) (methodCalls ci) = Ret ms"
    and ci': "ci' = ci\<lparr>methodCalls := ms\<rparr>"
    by (auto simp: rename_contract_def obind_Ret)
  show "contractName ci' = contractName ci" using ci' by simp
  show "functionName ` set (methodCalls ci) \<subseteq> functionName ` set (methodCalls ci')"
  proof
    fix f assume "f \<in> functionName ` set (methodCalls ci)"
    then obtain m where "m \<in> set (methodCalls ci)" "f = functionName m" by blast
    with mapM_Ret_argument[OF ms] obtain m' where
      "m' \<in> set ms" "rename_method fuel cs ci vt m = Ret m'" by blast
    with \<open>f = functionName m\<close> rename_method_functionName have "f = functionName m'" "m' \<in> set ms"
      by auto
    then show "f \<in> functionName ` set (methodCalls ci')" using ci' by auto
  qed
qed

lemma qualified_identifier_linked:
  assumes "mapM (rename_contract fuel cs vt) cs = Ret cs'"
    and "qualified_identifier cs s"
  shows "qualified_identifier cs' s"
proof -
  from assms(2) obtain c m types where
    c: "c \<in> set cs" and m: "m \<in> set (methodCalls c)"
    and s: "s = js_string (contractName c) @ '':'' @ functionName m
                  @ concat (map (\<lambda>t. '':'' @ t) types)"
    unfolding qualified_identifier_def by blast
  from mapM_Ret_argument[OF assms(1) c] obtain c' where
    c': "c' \<in> set cs'" "rename_contract fuel cs vt c = Ret c'" by blast
  have cn: "contractName c' = contractName c"
    by (rule rename_contract_names(1)[OF c'(2)])
  from m have "functionName m \<in> functionName ` set (methodCalls c)" by blast
  with rename_contract_names(2)[OF c'(2)]
  have "functionName m \<in> functionName ` set (methodCalls c')" by blast
  then obtain m' where m': "m' \<in> set (methodCalls c')" "functionName m' = functionName m"
    by auto
  have "s = js_string (contractName c') @ '':'' @ functionName m'
                  @ concat (map (\<lambda>t. '':'' @ t) types)"
    using s cn m'(2) by simp
  with c'(1) m'(1) show ?thesis unfolding qualified_identifier_def by blast
qed

text \<open>
  Claim C8. When linking returns, every call of every function of every contract record
  of every universe carries either the unresolved marker or a string made of the name
  of a contract record of its universe, the name of a function of that record and type
  segments.
\<close>

theorem linked_calls_resolved_or_unresolved:
  assumes "renameToSymLinks fuel allContractsData variableTypeMap = Ret linked"
  shows "\<forall>(file, contract) \<in> set linked. \<forall>contractInfo \<in> set contract.
           \<forall>method \<in> set (methodCalls contractInfo). \<forall>call \<in> set (callMethods method).
             name call = None \<or> (\<exists>s. name call = Some s \<and> qualified_identifier contract s)"
proof -
  have call:
    "name call' = None \<or> (\<exists>s. name call' = Some s \<and> qualified_identifier contract' s)"
    if linked: "(path, contract') \<in> set linked" and ci': "ci' \<in> set contract'"
      and m': "m' \<in> set (methodCalls ci')" and call': "call' \<in> set (callMethods m')"
    for path contract' ci' m' call'
  proof -
    from mapM_Ret_result[OF assms[unfolded renameToSymLinks_def] linked]
    obtain contract where
      universe: "mapM (rename_contract fuel contract variableTypeMap) contract = Ret contract'"
      by (auto simp: obind_Ret)
    from mapM_Ret_result[OF universe ci'] obtain ci where
      ci: "ci \<in> set contract" "rename_contract fuel contract variableTypeMap ci = Ret ci'"
      by blast
    from ci(2) obtain ms where
      ms: "mapM (rename_method fuel contract ci variableTypeMap) (methodCalls ci) = Ret ms"
      and "ci' = ci\<lparr>methodCalls := ms\<rparr>"
      by (auto simp: rename_contract_def obind_Ret)
    with m' have "m' \<in> set ms" by simp
    from mapM_Ret_result[OF ms this] obtain m where
      "rename_method fuel contract ci variableTypeMap m = Ret m'" by blast
    then obtain calls where
      calls: "mapM (rename_call fuel contract ci variableTypeMap) (callMethods m) = Ret calls"
      and "m' = m\<lparr>callMethods := calls\<rparr>"
      by (auto simp: rename_method_def obind_Ret)
    with call' have "call' \<in> set calls" by simp
    from mapM_Ret_result[OF calls this] obtain call where
      "rename_call fuel contract ci variableTypeMap call = Ret call'" by blast
    from rename_call_resolved[OF this ci(1)]
    have "name call' = None \<or> (\<exists>s. name call' = Some s \<and> qualified_identifier contract s)" .
    then show ?thesis
      using qualified_identifier_linked[OF universe] by blast
  qed
  show ?thesis
  proof (rule ballI)
    fix entry assume entry: "entry \<in> set linked"
    obtain path contract' where "entry = (path, contract')" by (cases entry)
    with entry call[of path contract'] show "case entry of (file, contract) \<Rightarrow>
         \<forall>contractInfo \<in> set contract. \<forall>method \<in> set (methodCalls contractInfo).
           \<forall>call \<in> set (callMethods method).
             name call = None \<or> (\<exists>s. name call = Some s \<and> qualified_identifier contract s)"
      by simp
  qed
qed

text \<open>
  The theorem at the universe of \<^verbatim>\<open>contract Child is A, B\<close>: linking returns, the call
  of \<^verbatim>\<open>f\<close> carries \<^verbatim>\<open>B:f:address\<close> and the call of \<^verbatim>\<open>keccak256\<close> the unresolved marker.
\<close>

theorem linked_calls_resolved_or_unresolved_witness:
  "renameToSymLinks 2 diamond_data []
     = Ret [(''Child.sol'', [diamond_A, diamond_B, diamond_linked_Child])]
   \<and> qualified_identifier [diamond_A, diamond_B, diamond_linked_Child] ''B:f:address''"
proof -
  have r: "renameToSymLinks 2 diamond_data []
             = Ret [(''Child.sol'', [diamond_A, diamond_B, diamond_linked_Child])]"
    by code_simp
  from linked_calls_resolved_or_unresolved[OF r]
  have "qualified_identifier [diamond_A, diamond_B, diamond_linked_Child] ''B:f:address''"
    by (simp add: diamond_linked_Child_def)
  with r show ?thesis by simp
qed

section \<open>The variable registry\<close>

lemma keys_file_variables:
  "fst ` set vars \<subseteq> fst ` set (file_variables ds vars)"
proof (induction ds vars rule: file_variables.induct)
  case (2 n t ds vars)
  have "fst ` set vars \<subseteq> fst ` set (map_set n t vars)"
    unfolding keys_map_set by blast
  with 2 show ?case by simp
qed simp_all

lemma declared_in_file_variables:
  "VariableDeclaration n t \<in> set ds \<Longrightarrow> n \<in> fst ` set (file_variables ds vars)"
proof (induction ds vars rule: file_variables.induct)
  case (2 n' t' ds vars)
  show ?case
  proof (cases "VariableDeclaration n t = VariableDeclaration n' t'")
    case True
    have "n' \<in> fst ` set (map_set n' t' vars)"
      unfolding keys_map_set by blast
    with keys_file_variables[of "map_set n' t' vars" ds] True show ?thesis by auto
  next
    case False
    with 2 show ?thesis by auto
  qed
qed auto

lemma file_contractName_last:
  "file_contractName ds cName = last (cName # contract_names ds)"
  by (induction ds cName rule: file_contractName.induct) auto

lemma profile_nodes:
  "forEachM (profile_node profile) ds (cName, vars, regs) = Ret (cName', vars', regs') \<Longrightarrow>
     cName' = file_contractName ds cName \<and> vars' = file_variables ds vars"
proof (induction ds arbitrary: cName vars regs)
  case Nil
  then show ?case by simp
next
  case (Cons d ds)
  obtain v i c t where regs: "regs = (v, i, c, t)" by (cases regs) auto
  from Cons.prems obtain st where
    st: "profile_node profile d (cName, vars, regs) = Ret st"
    and rest: "forEachM (profile_node profile) ds st = Ret (cName', vars', regs')"
    by (auto simp: obind_Ret)
  obtain cn1 vars1 regs1 where st1: "st = (cn1, vars1, regs1)" by (cases st) auto
  have "cn1 = file_contractName [d] cName \<and> vars1 = file_variables [d] vars"
    using st unfolding regs st1
    by (cases d) (auto simp: obind_Ret split: if_splits)
  moreover from Cons.IH[OF rest[unfolded st1]]
  have "cName' = file_contractName ds cn1 \<and> vars' = file_variables ds vars1" .
  ultimately show ?case by (cases d) auto
qed

text \<open>
  Claim C9, as stated, at a file with two contracts. The profiler keeps one map of
  variables per file and stores it once, under the name of the last contract
  definition: after \<^verbatim>\<open>Two.sol\<close> the registry has the one key \<^verbatim>\<open>Second\<close>, which holds
  \<^verbatim>\<open>owner\<close> of \<^verbatim>\<open>First\<close> too, and no key \<^verbatim>\<open>First\<close>.
\<close>

theorem two_contracts_one_key_counterexample:
  "profileData 1 two_files ''Two.sol'' ([], [], [], [])
     = Ret ([], [], [''First'', ''Second''],
            [(''Second'', [(''owner'', Some address_type), (''total'', Some uint256_type)])])
   \<and> map_of [(''Second'', [(''owner'', Some address_type), (''total'', Some uint256_type)])] ''First''
     = None"
  by code_simp

text \<open>
  Claim C9, amended. When the profiler returns from a file, the registry holds, under the
  name of the last contract definition of the file (the empty string when it has none),
  the map of the variable declarations of the whole file, and every variable declared in
  the file is a key of that map. For a file with one contract definition this key is the
  name of the enclosing contract.
\<close>

theorem variables_keyed_by_last_contract:
  assumes "profileData fuel fs solidityFile regs
             = Ret (importVisited', ignoresList', contractsList', variableType')"
    and "fs solidityFile = Some ast"
  shows "map_of variableType' (last ('''' # contract_names (declarations ast)))
           = Some (file_variables (declarations ast) [])
       \<and> (\<forall>n t. VariableDeclaration n t \<in> set (declarations ast) \<longrightarrow>
             n \<in> fst ` set (file_variables (declarations ast) []))
       \<and> (\<forall>c. contract_names (declarations ast) = [c] \<longrightarrow>
             map_of variableType' c = Some (file_variables (declarations ast) []))"
proof -
  obtain fuel' where fuel: "fuel = Suc fuel'"
    using assms(1) by (cases fuel) auto
  from assms obtain cName vars v i c t where
    nodes: "forEachM (profile_node (profileData fuel' fs)) (declarations ast) ('''', [], regs)
       = Ret (cName, vars, v, i, c, t)"
    and out: "variableType' = map_set cName vars t"
    unfolding fuel by (auto simp: obind_Ret)
  from profile_nodes[OF nodes]
  have "cName = file_contractName (declarations ast) []"
    and vars: "vars = file_variables (declarations ast) []"
    by auto
  then have key: "cName = last ([] # contract_names (declarations ast))"
    by (simp only: file_contractName_last)
  have stored: "map_of variableType' (last ([] # contract_names (declarations ast)))
           = Some (file_variables (declarations ast) [])"
    unfolding out key[symmetric] vars[symmetric] by (rule map_of_map_set)
  have keys: "\<forall>n t. VariableDeclaration n t \<in> set (declarations ast) \<longrightarrow>
             n \<in> fst ` set (file_variables (declarations ast) [])"
    using declared_in_file_variables by blast
  have one: "\<forall>c. contract_names (declarations ast) = [c] \<longrightarrow>
             map_of variableType' c = Some (file_variables (declarations ast) [])"
    using stored by auto
  from stored keys one show ?thesis by (intro conjI)
qed

text \<open>The theorem at \<^verbatim>\<open>Lib.sol\<close>, a file with one contract definition.\<close>

theorem variables_keyed_by_last_contract_witness:
  "profileData 1 lib_files ''Lib.sol'' ([], [], [], [])
     = Ret ([], [''Data''], [''Lib''], [(''Lib'', [(''size'', Some uint256_type)])])
   \<and> map_of [(''Lib'', [(''size'', Some uint256_type)])] ''Lib'' = Some [(''size'', Some uint256_type)]
   \<and> ''size'' \<in> fst ` set [(''size'', Some uint256_type)]"
proof -
  let ?ast = "\<lparr>declarations = [ContractDefinition ''Lib'', StructDefinition ''Data'',
                         VariableDeclaration ''size'' (Some uint256_type)],
         functionDefinitions = [], inheritance = []\<rparr>"
  have r: "profileData 1 lib_files ''Lib.sol'' ([], [], [], [])
     = Ret ([], [''Data''], [''Lib''], [(''Lib'', [(''size'', Some uint256_type)])])"
    by code_simp
  have f: "lib_files ''Lib.sol'' = Some ?ast"
    by (simp add: lib_files_def)
  from variables_keyed_by_last_contract[OF r f] r
  show ?thesis by simp
qed

section \<open>Absent contract records\<close>

text \<open>
  Claim C10 says that the resolver returns without faulting when a base name or an
  import's contract name has no record in the universe, as it does for an absent
  universe. The source tests \<^verbatim>\<open>contracts === undefined\<close> and then reads
  \<^verbatim>\<open>contractInfo.methodCalls\<close>: for \<^verbatim>\<open>User.sol\<close> importing \<^verbatim>\<open>Tokens.sol\<close>, whose contract
  is named \<^verbatim>\<open>Token\<close>, the import loop looks for a record named \<^verbatim>\<open>Tokens\<close>, finds none and
  recurses on \<^verbatim>\<open>undefined\<close>, which throws, in the resolver and so in \<^verbatim>\<open>parsing\<close>. With an
  absent universe the same call returns the unresolved marker.
\<close>

theorem absent_record_faults:
  "findAndRenameCall (Suc (Suc fuel)) (Some [token_record, user_record]) user_record
     (Some user_record) variableTypeMap keccak_call = Fault
   \<and> findAndRenameCall (Suc fuel) None user_record (Some user_record) variableTypeMap
       keccak_call = Ret None
   \<and> parsing (Suc (Suc fuel)) tokens_files [''User.sol''] = Fault"
  by (simp add: token_record_def user_record_def keccak_call_def path_parse_name_def
      parsing_def tokens_files_def obind_def run_fDef_def visit_unvisited_def
      first_import_with_def signature_of_def js_string_def renameToSymLinks_def
      rename_contract_def rename_method_def rename_call_def function_callMethods_def
      parserFunctionVisitor_FunctionCall_def isCountableStatement_def isKeywordFunction_def
      list_includes_def Let_def)

end
